theory Spec2Isabelle
  imports Complex_Main "HOL-Library.Multiset"
begin

section \<open>Strings and JavaScript values\<close>

text \<open>
  A JavaScript string is a sequence of code units; the model uses \<open>string\<close>
  (\<open>char list\<close>), one \<open>char\<close> per code unit, which covers the code units
  0 to 255. \<open>length\<close> is the \<open>.length\<close> of the source.
\<close>

definition code_unit :: "char \<Rightarrow> nat" where
  "code_unit c = of_char c"

text \<open>The character class \<open>[a-z0-9-]\<close> of the slug patterns, by code-unit ranges.\<close>

definition in_range :: "char \<Rightarrow> char \<Rightarrow> char \<Rightarrow> bool" where
  "in_range lo hi c = (code_unit lo \<le> code_unit c \<and> code_unit c \<le> code_unit hi)"

definition slug_class :: "char \<Rightarrow> bool" where
  "slug_class c =
     (in_range (CHR ''a'') (CHR ''z'') c \<or> in_range (CHR ''0'') (CHR ''9'') c \<or> c = CHR ''-'')"

text \<open>
  \<open>validateSlug\<close> (utils/validation.ts): \<open>/^[a-z0-9-]+$/.test(slug)\<close>. The pattern is
  anchored at both ends, has no flags, and \<open>+\<close> asks for at least one character.
  The schemas of packages/schemas use the same pattern in \<open>z.string().regex(...)\<close>.
\<close>

definition slugRegex_test :: "string \<Rightarrow> bool" where
  "slugRegex_test s = (s \<noteq> [] \<and> list_all slug_class s)"

definition validateSlug :: "string \<Rightarrow> bool" where
  "validateSlug slug = slugRegex_test slug"

text \<open>\<open>validateUsername\<close> and \<open>validatePassword\<close> of the same file.\<close>

definition validateUsername :: "string \<Rightarrow> bool" where
  "validateUsername username = (length username \<ge> 3 \<and> length username \<le> 50)"

definition validatePassword :: "string \<Rightarrow> bool" where
  "validatePassword password = (length password \<ge> 6)"

text \<open>
  The alphabet the specification names for a slug: lowercase letters, digits and the
  hyphen, written out character by character.
\<close>

definition slug_alphabet :: "char list" where
  "slug_alphabet = ''abcdefghijklmnopqrstuvwxyz0123456789-''"

text \<open>
  JavaScript values as they occur in request bodies (the result of \<open>request.json()\<close>)
  and in the objects handed to \<open>JSON.stringify\<close>. An object is an association list
  in property order; a property that is \<open>undefined\<close> is absent. Numbers are the
  integers (ids, counts, page numbers); a \<open>Date\<close> is its timestamp.
\<close>

datatype jsval =
    JNull
  | JBool bool
  | JNum int
  | JStr string
  | JDate int
  | JArr "jsval list"
  | JObj "(string \<times> jsval) list"

text \<open>\<open>obj.key\<close>: \<open>None\<close> is \<open>undefined\<close>.\<close>

fun js_prop :: "jsval \<Rightarrow> string \<Rightarrow> jsval option" where
  "js_prop (JObj kvs) k = map_of kvs k"
| "js_prop _ k = None"

text \<open>Rest destructuring \<open>const { key: _, ...rest } = obj\<close>.\<close>

definition omit :: "string \<Rightarrow> (string \<times> jsval) list \<Rightarrow> (string \<times> jsval) list" where
  "omit key kvs = filter (\<lambda>kv. fst kv \<noteq> key) kvs"

text \<open>A nullable text column as a JavaScript value.\<close>

definition js_nullable :: "string option \<Rightarrow> jsval" where
  "js_nullable v = (case v of None \<Rightarrow> JNull | Some s \<Rightarrow> JStr s)"

text \<open>
  The result of JavaScript's \<open>Number(s)\<close> as far as the schemas look at it: not a
  number, an integer, or any other number (a fraction or an infinity).
\<close>

datatype jsnum = JsNaN | JsInt int | JsOther

section \<open>Enumerations and claims (packages/schemas, types)\<close>

datatype user_role = Admin | Editor

datatype post_status = Draft | Published

datatype post_content_type = Markdown | Html

definition role_str :: "user_role \<Rightarrow> string" where
  "role_str r = (case r of Admin \<Rightarrow> ''admin'' | Editor \<Rightarrow> ''editor'')"

definition status_str :: "post_status \<Rightarrow> string" where
  "status_str s = (case s of Draft \<Rightarrow> ''draft'' | Published \<Rightarrow> ''published'')"

definition content_type_str :: "post_content_type \<Rightarrow> string" where
  "content_type_str t = (case t of Markdown \<Rightarrow> ''markdown'' | Html \<Rightarrow> ''html'')"

record jwt_payload =
  jp_userId :: int
  jp_username :: string
  jp_email :: string
  jp_role :: user_role

record auth_user =
  au_id :: int
  au_username :: string
  au_email :: string
  au_role :: user_role

section \<open>Libraries and built-ins the code calls\<close>

text \<open>
  The functions of bcryptjs, jsonwebtoken, zod's format checks and the JavaScript
  built-ins \<open>Number\<close> and \<open>parseInt\<close> are parameters of the model. \<open>jwt_verify\<close>
  either throws or returns the decoded claims. \<open>zod_default_in_optional\<close> says whether
  the installed zod applies a field's default when the field is wrapped by
  \<open>.partial()\<close> (zod 4 does, zod 3 does not). \<open>sqlite_foreign_keys\<close> is the state
  of SQLite's foreign-key enforcement. \<open>js_positive v\<close> is JavaScript's \<open>v > 0\<close> for
  a value that is not a number. \<open>sqlite_bind v\<close> is what becomes of a JavaScript value
  that is not a number when it is bound to a statement for an \<open>INTEGER\<close> column: the
  driver throws, or the value is an integer after SQLite's conversion, or it is
  \<open>NULL\<close>, or it stays a text.
\<close>

datatype jwt_error = JsonWebTokenError | TokenExpiredError | NotBeforeError

datatype sql_bound = BindThrows | BindInteger int | BindNull | BindText string

record lib =
  bcrypt_hash :: "string \<Rightarrow> string"
  bcrypt_compare :: "string \<Rightarrow> string \<Rightarrow> bool"
  jwt_sign :: "jwt_payload \<Rightarrow> string \<Rightarrow> string \<Rightarrow> int \<Rightarrow> string"
  jwt_verify :: "string \<Rightarrow> string \<Rightarrow> int \<Rightarrow> jwt_error + jwt_payload"
  zod_email :: "string \<Rightarrow> bool"
  zod_url :: "string \<Rightarrow> bool"
  zod_default_in_optional :: bool
  js_Number :: "string \<Rightarrow> jsnum"
  js_parseInt :: "string \<Rightarrow> int option"
  js_positive :: "jsval \<Rightarrow> bool"
  sqlite_foreign_keys :: bool
  sqlite_bind :: "jsval \<Rightarrow> sql_bound"
  env_JWT_SECRET :: "string option"
  env_JWT_EXPIRES_IN :: "string option"

section \<open>Request validation (zod schemas)\<close>

text \<open>
  \<open>schema.parse\<close> either throws a ZodError carrying its issues or returns the
  validated value: \<open>Inl\<close> is the list of issues (each named by the path of the field
  it is about), \<open>Inr\<close> the value.
\<close>

type_synonym 'a parsed = "string list + 'a"

definition issues :: "'a parsed \<Rightarrow> string list" where
  "issues r = (case r of Inl is \<Rightarrow> is | Inr _ \<Rightarrow> [])"

text \<open>\<open>z.string()\<close> with further checks \<open>ok\<close> on the string.\<close>

definition z_string :: "(string \<Rightarrow> bool) \<Rightarrow> string \<Rightarrow> jsval option \<Rightarrow> string parsed" where
  "z_string ok path v =
     (case v of Some (JStr s) \<Rightarrow> if ok s then Inr s else Inl [path] | _ \<Rightarrow> Inl [path])"

text \<open>\<open>z.enum([...])\<close>: the string must be one of the listed names.\<close>

definition z_enum :: "(string \<times> 'a) list \<Rightarrow> string \<Rightarrow> jsval option \<Rightarrow> 'a parsed" where
  "z_enum names path v =
     (case v of
        Some (JStr s) \<Rightarrow> (case map_of names s of Some x \<Rightarrow> Inr x | None \<Rightarrow> Inl [path])
      | _ \<Rightarrow> Inl [path])"

text \<open>\<open>.default(d)\<close>: an \<open>undefined\<close> input becomes \<open>d\<close>.\<close>

definition z_default :: "'a \<Rightarrow> (jsval option \<Rightarrow> 'a parsed) \<Rightarrow> jsval option \<Rightarrow> 'a parsed" where
  "z_default d p v = (case v of None \<Rightarrow> Inr d | Some _ \<Rightarrow> p v)"

text \<open>\<open>.optional()\<close>: an \<open>undefined\<close> input stays \<open>undefined\<close>.\<close>

definition z_optional :: "(jsval option \<Rightarrow> 'a parsed) \<Rightarrow> jsval option \<Rightarrow> 'a option parsed" where
  "z_optional p v = (case v of None \<Rightarrow> Inr None | Some _ \<Rightarrow> map_sum id Some (p v))"

text \<open>\<open>.nullable()\<close>: \<open>null\<close> is accepted and kept.\<close>

definition z_nullable :: "(jsval option \<Rightarrow> 'a parsed) \<Rightarrow> jsval option \<Rightarrow> 'a option parsed" where
  "z_nullable p v = (case v of Some JNull \<Rightarrow> Inr None | _ \<Rightarrow> map_sum id Some (p v))"

text \<open>
  A field with a default under \<open>.partial()\<close>: \<open>ZodOptional(ZodDefault(inner))\<close>. On
  \<open>undefined\<close>, zod 3 returns \<open>undefined\<close> and zod 4 returns the default.
\<close>

definition z_partial_default ::
  "lib \<Rightarrow> 'a \<Rightarrow> (jsval option \<Rightarrow> 'a parsed) \<Rightarrow> jsval option \<Rightarrow> 'a option parsed" where
  "z_partial_default L d p v =
     (case v of
        None \<Rightarrow> Inr (if zod_default_in_optional L then Some d else None)
      | Some _ \<Rightarrow> map_sum id Some (p v))"

definition userRoleSchema :: "string \<Rightarrow> jsval option \<Rightarrow> user_role parsed" where
  "userRoleSchema = z_enum [(''admin'', Admin), (''editor'', Editor)]"

definition postStatusSchema :: "string \<Rightarrow> jsval option \<Rightarrow> post_status parsed" where
  "postStatusSchema = z_enum [(''draft'', Draft), (''published'', Published)]"

definition postContentTypeSchema :: "string \<Rightarrow> jsval option \<Rightarrow> post_content_type parsed" where
  "postContentTypeSchema = z_enum [(''markdown'', Markdown), (''html'', Html)]"

text \<open>
  \<open>insertUserSchema\<close>: username of 3 to 50 code units, an email, a password of at
  least 6, and \<open>role: userRoleSchema.default("editor")\<close>. \<open>z.object\<close> accepts objects
  only and drops the keys it does not name.
\<close>

record insert_user =
  iu_username :: string
  iu_email :: string
  iu_password :: string
  iu_role :: user_role

definition insertUserSchema :: "lib \<Rightarrow> jsval \<Rightarrow> insert_user parsed" where
  "insertUserSchema L body =
     (case body of
        JObj kvs \<Rightarrow>
          (let u = z_string (\<lambda>s. 3 \<le> length s \<and> length s \<le> 50) ''username'' (js_prop body ''username'');
               e = z_string (zod_email L) ''email'' (js_prop body ''email'');
               p = z_string (\<lambda>s. 6 \<le> length s) ''password'' (js_prop body ''password'');
               r = z_default Editor (userRoleSchema ''role'') (js_prop body ''role'')
           in if isl u \<or> isl e \<or> isl p \<or> isl r
              then Inl (issues u @ issues e @ issues p @ issues r)
              else Inr \<lparr>iu_username = projr u, iu_email = projr e,
                        iu_password = projr p, iu_role = projr r\<rparr>)
      | _ \<Rightarrow> Inl [[]])"

text \<open>\<open>loginSchema\<close> (authController) and \<open>changePasswordSchema\<close> (userController).\<close>

definition loginSchema :: "jsval \<Rightarrow> (string \<times> string) parsed" where
  "loginSchema body =
     (case body of
        JObj kvs \<Rightarrow>
          (let u = z_string (\<lambda>s. 1 \<le> length s) ''username'' (js_prop body ''username'');
               p = z_string (\<lambda>s. 1 \<le> length s) ''password'' (js_prop body ''password'')
           in if isl u \<or> isl p then Inl (issues u @ issues p)
              else Inr (projr u, projr p))
      | _ \<Rightarrow> Inl [[]])"

definition changePasswordSchema :: "jsval \<Rightarrow> (string \<times> string) parsed" where
  "changePasswordSchema body =
     (case body of
        JObj kvs \<Rightarrow>
          (let c = z_string (\<lambda>s. 1 \<le> length s) ''currentPassword'' (js_prop body ''currentPassword'');
               n = z_string (\<lambda>s. 6 \<le> length s) ''newPassword'' (js_prop body ''newPassword'')
           in if isl c \<or> isl n then Inl (issues c @ issues n)
              else Inr (projr c, projr n))
      | _ \<Rightarrow> Inl [[]])"

text \<open>
  \<open>insertCategorySchema\<close> and \<open>categoryUpdateSchema = insertCategorySchema.partial()\<close>.
  The description is \<open>.nullable().optional()\<close>: \<open>None\<close> is \<open>undefined\<close>,
  \<open>Some None\<close> is \<open>null\<close>.
\<close>

record insert_category =
  ic_name :: string
  ic_slug :: string
  ic_description :: "string option option"

record category_update =
  cu_name :: "string option"
  cu_slug :: "string option"
  cu_description :: "string option option"

definition z_name :: "string \<Rightarrow> jsval option \<Rightarrow> string parsed" where
  "z_name = z_string (\<lambda>s. 1 \<le> length s \<and> length s \<le> 100)"

definition z_slug :: "string \<Rightarrow> jsval option \<Rightarrow> string parsed" where
  "z_slug = z_string slugRegex_test"

definition z_description :: "jsval option \<Rightarrow> string option option parsed" where
  "z_description = z_optional (z_nullable (z_string (\<lambda>s. length s \<le> 500) ''description''))"

definition insertCategorySchema :: "jsval \<Rightarrow> insert_category parsed" where
  "insertCategorySchema body =
     (case body of
        JObj kvs \<Rightarrow>
          (let n = z_name ''name'' (js_prop body ''name'');
               s = z_slug ''slug'' (js_prop body ''slug'');
               d = z_description (js_prop body ''description'')
           in if isl n \<or> isl s \<or> isl d then Inl (issues n @ issues s @ issues d)
              else Inr \<lparr>ic_name = projr n, ic_slug = projr s, ic_description = projr d\<rparr>)
      | _ \<Rightarrow> Inl [[]])"

definition categoryUpdateSchema :: "jsval \<Rightarrow> category_update parsed" where
  "categoryUpdateSchema body =
     (case body of
        JObj kvs \<Rightarrow>
          (let n = z_optional (z_name ''name'') (js_prop body ''name'');
               s = z_optional (z_slug ''slug'') (js_prop body ''slug'');
               d = z_description (js_prop body ''description'')
           in if isl n \<or> isl s \<or> isl d then Inl (issues n @ issues s @ issues d)
              else Inr \<lparr>cu_name = projr n, cu_slug = projr s, cu_description = projr d\<rparr>)
      | _ \<Rightarrow> Inl [[]])"

text \<open>
  \<open>insertPostSchema\<close> and \<open>postUpdateSchema = insertPostSchema.partial()\<close>. The
  schema names seven fields: title, slug, content, contentType, excerpt, status and
  featuredImage.
\<close>

record insert_post =
  ip_title :: string
  ip_slug :: string
  ip_content :: string
  ip_contentType :: post_content_type
  ip_excerpt :: "string option"
  ip_status :: post_status
  ip_featuredImage :: "string option"

record post_update =
  pu_title :: "string option"
  pu_slug :: "string option"
  pu_content :: "string option"
  pu_contentType :: "post_content_type option"
  pu_excerpt :: "string option"
  pu_status :: "post_status option"
  pu_featuredImage :: "string option"

definition z_title :: "string \<Rightarrow> jsval option \<Rightarrow> string parsed" where
  "z_title = z_string (\<lambda>s. 1 \<le> length s \<and> length s \<le> 200)"

definition z_content :: "string \<Rightarrow> jsval option \<Rightarrow> string parsed" where
  "z_content = z_string (\<lambda>s. 1 \<le> length s)"

definition z_excerpt :: "string \<Rightarrow> jsval option \<Rightarrow> string parsed" where
  "z_excerpt = z_string (\<lambda>s. length s \<le> 500)"

definition insertPostSchema :: "lib \<Rightarrow> jsval \<Rightarrow> insert_post parsed" where
  "insertPostSchema L body =
     (case body of
        JObj kvs \<Rightarrow>
          (let t = z_title ''title'' (js_prop body ''title'');
               s = z_slug ''slug'' (js_prop body ''slug'');
               c = z_content ''content'' (js_prop body ''content'');
               ct = z_default Markdown (postContentTypeSchema ''contentType'')
                      (js_prop body ''contentType'');
               e = z_optional (z_excerpt ''excerpt'') (js_prop body ''excerpt'');
               st = z_default Draft (postStatusSchema ''status'') (js_prop body ''status'');
               f = z_optional (z_string (zod_url L) ''featuredImage'')
                     (js_prop body ''featuredImage'')
           in if isl t \<or> isl s \<or> isl c \<or> isl ct \<or> isl e \<or> isl st \<or> isl f
              then Inl (issues t @ issues s @ issues c @ issues ct @ issues e @ issues st
                        @ issues f)
              else Inr \<lparr>ip_title = projr t, ip_slug = projr s, ip_content = projr c,
                        ip_contentType = projr ct, ip_excerpt = projr e, ip_status = projr st,
                        ip_featuredImage = projr f\<rparr>)
      | _ \<Rightarrow> Inl [[]])"

definition postUpdateSchema :: "lib \<Rightarrow> jsval \<Rightarrow> post_update parsed" where
  "postUpdateSchema L body =
     (case body of
        JObj kvs \<Rightarrow>
          (let t = z_optional (z_title ''title'') (js_prop body ''title'');
               s = z_optional (z_slug ''slug'') (js_prop body ''slug'');
               c = z_optional (z_content ''content'') (js_prop body ''content'');
               ct = z_partial_default L Markdown (postContentTypeSchema ''contentType'')
                      (js_prop body ''contentType'');
               e = z_optional (z_excerpt ''excerpt'') (js_prop body ''excerpt'');
               st = z_partial_default L Draft (postStatusSchema ''status'')
                      (js_prop body ''status'');
               f = z_optional (z_string (zod_url L) ''featuredImage'')
                     (js_prop body ''featuredImage'')
           in if isl t \<or> isl s \<or> isl c \<or> isl ct \<or> isl e \<or> isl st \<or> isl f
              then Inl (issues t @ issues s @ issues c @ issues ct @ issues e @ issues st
                        @ issues f)
              else Inr \<lparr>pu_title = projr t, pu_slug = projr s, pu_content = projr c,
                        pu_contentType = projr ct, pu_excerpt = projr e, pu_status = projr st,
                        pu_featuredImage = projr f\<rparr>)
      | _ \<Rightarrow> Inl [[]])"

text \<open>
  The body of a post request is cast to \<open>{ categoryIds?: number[] }\<close>, and
  \<open>categoryIds\<close> is read from it without validation: whatever JSON value the body
  has there reaches the code. The code tests it for truthiness and compares its
  \<open>length\<close> with 0.

  Truthiness of a JavaScript value (\<open>None\<close> is \<open>undefined\<close>): \<open>undefined\<close>,
  \<open>null\<close>, \<open>false\<close>, \<open>0\<close> and the empty string are falsy, everything else (every
  array and every object) is truthy.
\<close>

fun js_truthy :: "jsval option \<Rightarrow> bool" where
  "js_truthy None = False"
| "js_truthy (Some JNull) = False"
| "js_truthy (Some (JBool b)) = b"
| "js_truthy (Some (JNum n)) = (n \<noteq> 0)"
| "js_truthy (Some (JStr s)) = (s \<noteq> [])"
| "js_truthy (Some (JDate t)) = True"
| "js_truthy (Some (JArr xs)) = True"
| "js_truthy (Some (JObj kvs)) = True"

text \<open>
  \<open>v.length > 0\<close> for a truthy value \<open>v\<close>: an array and a string have their length;
  an object has the \<open>length\<close> property its JSON gave it, if any, compared with 0 as a
  number or, when it is not a number, after the conversion that \<open>js_positive\<close> stands
  for; a number and a boolean have no \<open>length\<close>, and \<open>undefined > 0\<close> is false.
\<close>

definition length_positive :: "lib \<Rightarrow> jsval \<Rightarrow> bool" where
  "length_positive L v =
     (case v of
        JArr xs \<Rightarrow> xs \<noteq> []
      | JStr s \<Rightarrow> s \<noteq> []
      | JObj kvs \<Rightarrow>
          (case map_of kvs ''length'' of
             None \<Rightarrow> False
           | Some (JNum n) \<Rightarrow> 0 < n
           | Some l \<Rightarrow> js_positive L l)
      | _ \<Rightarrow> False)"

text \<open>
  What the driver hands to SQLite for an element of \<open>categoryIds\<close>, and what the
  \<open>INTEGER\<close> affinity of the column makes of it: a number is that integer; for a
  value that is not a number it is the parameter \<open>sqlite_bind\<close>.
\<close>

definition bind_value :: "lib \<Rightarrow> jsval \<Rightarrow> sql_bound" where
  "bind_value L v = (case v of JNum n \<Rightarrow> BindInteger n | _ \<Rightarrow> sqlite_bind L v)"

fun bound_integers :: "sql_bound list \<Rightarrow> int list" where
  "bound_integers [] = []"
| "bound_integers (BindInteger k # bs) = k # bound_integers bs"
| "bound_integers (b # bs) = bound_integers bs"

fun is_text :: "sql_bound \<Rightarrow> bool" where
  "is_text (BindText s) = True"
| "is_text b = False"

text \<open>
  \<open>postsQuerySchema\<close> (postController). \<open>getPosts\<close> hands it the query parameters
  with page, limit, category and author already passed through \<open>Number\<close> when the
  parameter is a non-empty string, and \<open>undefined\<close> otherwise.
\<close>

datatype sort_by = Created_at | Updated_at | Title

datatype sort_order = Asc | Desc

record posts_query_input =
  qi_page :: "jsnum option"
  qi_limit :: "jsnum option"
  qi_status :: "string option"
  qi_category :: "jsnum option"
  qi_author :: "jsnum option"
  qi_search :: "string option"
  qi_sortBy :: "string option"
  qi_sortOrder :: "string option"

record posts_query =
  pq_page :: int
  pq_limit :: int
  pq_status :: "post_status option"
  pq_category :: "int option"
  pq_author :: "int option"
  pq_search :: "string option"
  pq_sortBy :: sort_by
  pq_sortOrder :: sort_order

text \<open>\<open>z.coerce.number().int()\<close> with further checks \<open>ok\<close>, on a number.\<close>

definition z_coerce_int :: "(int \<Rightarrow> bool) \<Rightarrow> string \<Rightarrow> jsnum \<Rightarrow> int parsed" where
  "z_coerce_int ok path v =
     (case v of JsInt n \<Rightarrow> if ok n then Inr n else Inl [path] | _ \<Rightarrow> Inl [path])"

definition z_coerce_default :: "int \<Rightarrow> (jsnum \<Rightarrow> int parsed) \<Rightarrow> jsnum option \<Rightarrow> int parsed" where
  "z_coerce_default d p v = (case v of None \<Rightarrow> Inr d | Some n \<Rightarrow> p n)"

definition z_coerce_optional :: "(jsnum \<Rightarrow> int parsed) \<Rightarrow> jsnum option \<Rightarrow> int option parsed" where
  "z_coerce_optional p v = (case v of None \<Rightarrow> Inr None | Some n \<Rightarrow> map_sum id Some (p n))"

definition postsQuerySchema :: "posts_query_input \<Rightarrow> posts_query parsed" where
  "postsQuerySchema i =
     (let pg = z_coerce_default 1 (z_coerce_int (\<lambda>n. 1 \<le> n) ''page'') (qi_page i);
          lm = z_coerce_default 10 (z_coerce_int (\<lambda>n. 1 \<le> n \<and> n \<le> 100) ''limit'') (qi_limit i);
          st = z_optional (postStatusSchema ''status'') (map_option JStr (qi_status i));
          ca = z_coerce_optional (z_coerce_int (\<lambda>n. 0 < n) ''category'') (qi_category i);
          au = z_coerce_optional (z_coerce_int (\<lambda>n. 0 < n) ''author'') (qi_author i);
          se = z_optional (z_string (\<lambda>s. True) ''search'') (map_option JStr (qi_search i));
          sb = z_default Created_at
                 (z_enum [(''created_at'', Created_at), (''updated_at'', Updated_at),
                          (''title'', Title)] ''sortBy'')
                 (map_option JStr (qi_sortBy i));
          so = z_default Desc (z_enum [(''asc'', Asc), (''desc'', Desc)] ''sortOrder'')
                 (map_option JStr (qi_sortOrder i))
      in if isl pg \<or> isl lm \<or> isl st \<or> isl ca \<or> isl au \<or> isl se \<or> isl sb \<or> isl so
         then Inl (issues pg @ issues lm @ issues st @ issues ca @ issues au @ issues se
                   @ issues sb @ issues so)
         else Inr \<lparr>pq_page = projr pg, pq_limit = projr lm, pq_status = projr st,
                   pq_category = projr ca, pq_author = projr au, pq_search = projr se,
                   pq_sortBy = projr sb, pq_sortOrder = projr so\<rparr>)"

text \<open>Truthiness of an optional string: \<open>undefined\<close> and \<open>""\<close> are falsy.\<close>

definition truthy :: "string option \<Rightarrow> bool" where
  "truthy v = (case v of None \<Rightarrow> False | Some s \<Rightarrow> s \<noteq> [])"

definition number_param :: "lib \<Rightarrow> string option \<Rightarrow> jsnum option" where
  "number_param L v = (if truthy v then Some (js_Number L (the v)) else None)"

definition posts_query_of :: "lib \<Rightarrow> (string \<Rightarrow> string option) \<Rightarrow> posts_query_input" where
  "posts_query_of L params =
     \<lparr>qi_page = number_param L (params ''page''),
      qi_limit = number_param L (params ''limit''),
      qi_status = params ''status'',
      qi_category = number_param L (params ''category''),
      qi_author = number_param L (params ''author''),
      qi_search = params ''search'',
      qi_sortBy = params ''sortBy'',
      qi_sortOrder = params ''sortOrder''\<rparr>"

section \<open>The store (db/schema.ts)\<close>

text \<open>
  The four tables, each a list of rows in insertion order, and the \<open>sqlite_sequence\<close>
  counters of the three \<open>autoIncrement\<close> keys. Timestamps are integers.
\<close>

record user_row =
  user_id :: int
  user_username :: string
  user_email :: string
  user_password :: string
  user_role :: user_role
  user_createdAt :: int
  user_updatedAt :: int

record category_row =
  cat_id :: int
  cat_name :: string
  cat_slug :: string
  cat_description :: "string option"
  cat_createdAt :: int
  cat_updatedAt :: int

record post_row =
  post_id :: int
  post_title :: string
  post_slug :: string
  post_content :: string
  post_contentType :: post_content_type
  post_excerpt :: "string option"
  post_status :: post_status
  post_featuredImage :: "string option"
  post_authorId :: int
  post_createdAt :: int
  post_updatedAt :: int

record post_category_row =
  pc_postId :: int
  pc_categoryId :: int

record database =
  users :: "user_row list"
  categories :: "category_row list"
  posts :: "post_row list"
  postCategories :: "post_category_row list"
  seq_users :: int
  seq_categories :: int
  seq_posts :: int

text \<open>
  A statement that violates a constraint throws and changes nothing. The primary key of
  \<open>post_categories\<close> is reported by SQLite as a UNIQUE constraint too.
\<close>

datatype db_error =
    UniqueConstraint string
  | ForeignKeyConstraint
  | NotNullConstraint string
  | SqlError string

definition db_error_message :: "db_error \<Rightarrow> string" where
  "db_error_message e =
     (case e of
        UniqueConstraint cols \<Rightarrow> ''UNIQUE constraint failed: '' @ cols
      | ForeignKeyConstraint \<Rightarrow> ''FOREIGN KEY constraint failed''
      | NotNullConstraint col \<Rightarrow> ''NOT NULL constraint failed: '' @ col
      | SqlError msg \<Rightarrow> msg)"

text \<open>
  An \<open>AUTOINCREMENT\<close> key: one more than the largest id ever used, which is the
  larger of the sequence counter and the ids in the table.
\<close>

definition next_id :: "int \<Rightarrow> int list \<Rightarrow> int" where
  "next_id s ids = fold max ids s + 1"

definition insert_user_row ::
  "database \<Rightarrow> string \<Rightarrow> string \<Rightarrow> string \<Rightarrow> user_role \<Rightarrow> int
     \<Rightarrow> db_error + (user_row \<times> database)" where
  "insert_user_row db username email password role now =
     (if list_ex (\<lambda>u. user_username u = username) (users db)
      then Inl (UniqueConstraint ''users.username'')
      else if list_ex (\<lambda>u. user_email u = email) (users db)
      then Inl (UniqueConstraint ''users.email'')
      else
        (let i = next_id (seq_users db) (map user_id (users db));
             row = \<lparr>user_id = i, user_username = username, user_email = email,
                    user_password = password, user_role = role,
                    user_createdAt = now, user_updatedAt = now\<rparr>
         in Inr (row, db\<lparr>users := users db @ [row], seq_users := i\<rparr>)))"

definition update_user_password :: "database \<Rightarrow> int \<Rightarrow> string \<Rightarrow> int \<Rightarrow> database" where
  "update_user_password db uid password now =
     db\<lparr>users := map (\<lambda>u. if user_id u = uid
                            then u\<lparr>user_password := password, user_updatedAt := now\<rparr>
                            else u) (users db)\<rparr>"

definition insert_category_row ::
  "database \<Rightarrow> insert_category \<Rightarrow> int \<Rightarrow> db_error + (category_row \<times> database)" where
  "insert_category_row db d now =
     (if list_ex (\<lambda>c. cat_name c = ic_name d) (categories db)
      then Inl (UniqueConstraint ''categories.name'')
      else if list_ex (\<lambda>c. cat_slug c = ic_slug d) (categories db)
      then Inl (UniqueConstraint ''categories.slug'')
      else
        (let i = next_id (seq_categories db) (map cat_id (categories db));
             row = \<lparr>cat_id = i, cat_name = ic_name d, cat_slug = ic_slug d,
                    cat_description = (case ic_description d of None \<Rightarrow> None | Some v \<Rightarrow> v),
                    cat_createdAt = now, cat_updatedAt = now\<rparr>
         in Inr (row, db\<lparr>categories := categories db @ [row], seq_categories := i\<rparr>)))"

text \<open>\<open>.set({...data, updatedAt})\<close>: a key that is \<open>undefined\<close> is not written.\<close>

definition set_category :: "category_update \<Rightarrow> int \<Rightarrow> category_row \<Rightarrow> category_row" where
  "set_category d now c =
     c\<lparr>cat_name := (case cu_name d of None \<Rightarrow> cat_name c | Some v \<Rightarrow> v),
       cat_slug := (case cu_slug d of None \<Rightarrow> cat_slug c | Some v \<Rightarrow> v),
       cat_description := (case cu_description d of None \<Rightarrow> cat_description c | Some v \<Rightarrow> v),
       cat_updatedAt := now\<rparr>"

definition update_category_row ::
  "database \<Rightarrow> int \<Rightarrow> category_update \<Rightarrow> int \<Rightarrow> db_error + database" where
  "update_category_row db cid d now =
     (if list_ex (\<lambda>c. cat_id c = cid) (categories db)
         \<and> list_ex (\<lambda>c. cat_id c \<noteq> cid \<and> Some (cat_name c) = cu_name d) (categories db)
      then Inl (UniqueConstraint ''categories.name'')
      else if list_ex (\<lambda>c. cat_id c = cid) (categories db)
         \<and> list_ex (\<lambda>c. cat_id c \<noteq> cid \<and> Some (cat_slug c) = cu_slug d) (categories db)
      then Inl (UniqueConstraint ''categories.slug'')
      else Inr (db\<lparr>categories :=
                     map (\<lambda>c. if cat_id c = cid then set_category d now c else c)
                       (categories db)\<rparr>))"

definition delete_category_row :: "lib \<Rightarrow> database \<Rightarrow> int \<Rightarrow> db_error + database" where
  "delete_category_row L db cid =
     (if sqlite_foreign_keys L \<and> list_ex (\<lambda>r. pc_categoryId r = cid) (postCategories db)
      then Inl ForeignKeyConstraint
      else Inr (db\<lparr>categories := filter (\<lambda>c. cat_id c \<noteq> cid) (categories db)\<rparr>))"

definition insert_post_row ::
  "lib \<Rightarrow> database \<Rightarrow> insert_post \<Rightarrow> int \<Rightarrow> int \<Rightarrow> db_error + (post_row \<times> database)" where
  "insert_post_row L db d author now =
     (if list_ex (\<lambda>p. post_slug p = ip_slug d) (posts db)
      then Inl (UniqueConstraint ''posts.slug'')
      else if sqlite_foreign_keys L \<and> \<not> list_ex (\<lambda>u. user_id u = author) (users db)
      then Inl ForeignKeyConstraint
      else
        (let i = next_id (seq_posts db) (map post_id (posts db));
             row = \<lparr>post_id = i, post_title = ip_title d, post_slug = ip_slug d,
                    post_content = ip_content d, post_contentType = ip_contentType d,
                    post_excerpt = ip_excerpt d, post_status = ip_status d,
                    post_featuredImage = ip_featuredImage d, post_authorId = author,
                    post_createdAt = now, post_updatedAt = now\<rparr>
         in Inr (row, db\<lparr>posts := posts db @ [row], seq_posts := i\<rparr>)))"

definition set_post :: "post_update \<Rightarrow> int \<Rightarrow> post_row \<Rightarrow> post_row" where
  "set_post d now p =
     p\<lparr>post_title := (case pu_title d of None \<Rightarrow> post_title p | Some v \<Rightarrow> v),
       post_slug := (case pu_slug d of None \<Rightarrow> post_slug p | Some v \<Rightarrow> v),
       post_content := (case pu_content d of None \<Rightarrow> post_content p | Some v \<Rightarrow> v),
       post_contentType :=
         (case pu_contentType d of None \<Rightarrow> post_contentType p | Some v \<Rightarrow> v),
       post_excerpt := (case pu_excerpt d of None \<Rightarrow> post_excerpt p | Some v \<Rightarrow> Some v),
       post_status := (case pu_status d of None \<Rightarrow> post_status p | Some v \<Rightarrow> v),
       post_featuredImage :=
         (case pu_featuredImage d of None \<Rightarrow> post_featuredImage p | Some v \<Rightarrow> Some v),
       post_updatedAt := now\<rparr>"

definition update_post_row ::
  "database \<Rightarrow> int \<Rightarrow> post_update \<Rightarrow> int \<Rightarrow> db_error + database" where
  "update_post_row db pid d now =
     (if list_ex (\<lambda>p. post_id p = pid) (posts db)
         \<and> list_ex (\<lambda>p. post_id p \<noteq> pid \<and> Some (post_slug p) = pu_slug d) (posts db)
      then Inl (UniqueConstraint ''posts.slug'')
      else Inr (db\<lparr>posts := map (\<lambda>p. if post_id p = pid then set_post d now p else p)
                               (posts db)\<rparr>))"

definition delete_post_row :: "lib \<Rightarrow> database \<Rightarrow> int \<Rightarrow> db_error + database" where
  "delete_post_row L db pid =
     (if sqlite_foreign_keys L \<and> list_ex (\<lambda>r. pc_postId r = pid) (postCategories db)
      then Inl ForeignKeyConstraint
      else Inr (db\<lparr>posts := filter (\<lambda>p. post_id p \<noteq> pid) (posts db)\<rparr>))"

definition delete_post_categories :: "database \<Rightarrow> int \<Rightarrow> database" where
  "delete_post_categories db pid =
     db\<lparr>postCategories := filter (\<lambda>r. pc_postId r \<noteq> pid) (postCategories db)\<rparr>"

text \<open>
  \<open>db.insert(postCategories).values(rows)\<close>: one statement, all rows or none. The
  pair (postId, categoryId) is the primary key; both columns reference their tables.
\<close>

definition insert_post_categories ::
  "lib \<Rightarrow> database \<Rightarrow> post_category_row list \<Rightarrow> db_error + database" where
  "insert_post_categories L db rows =
     (if \<not> distinct rows \<or> list_ex (\<lambda>r. r \<in> set (postCategories db)) rows
      then Inl (UniqueConstraint ''post_categories.post_id, post_categories.category_id'')
      else if sqlite_foreign_keys L
              \<and> list_ex (\<lambda>r. \<not> list_ex (\<lambda>p. post_id p = pc_postId r) (posts db)
                              \<or> \<not> list_ex (\<lambda>c. cat_id c = pc_categoryId r) (categories db))
                    rows
      then Inl ForeignKeyConstraint
      else Inr (db\<lparr>postCategories := postCategories db @ rows\<rparr>))"

text \<open>
  The same statement for the elements of \<open>categoryIds\<close> as the request gave them:
  \<open>categoryIds.map(categoryId => ({ postId, categoryId }))\<close> handed to \<open>values\<close>.
  The statement throws when the driver cannot bind an element, when an element is
  \<open>NULL\<close> (the column is \<open>NOT NULL\<close>), when two elements are the same value, and,
  with foreign keys enforced, when an element stays a text (no category has a text as
  its id). Otherwise the rows with an integer category id are inserted as above. With
  foreign keys off SQLite also stores a row whose category id stayed a text; the table
  of the model holds integer ids and does not show such a row.
\<close>

definition insert_categories ::
  "lib \<Rightarrow> database \<Rightarrow> int \<Rightarrow> jsval list \<Rightarrow> db_error + database" where
  "insert_categories L db pid categoryIds =
     (let bs = map (bind_value L) categoryIds in
      if list_ex (\<lambda>b. b = BindThrows) bs
      then Inl (SqlError ''Binding expected string, TypedArray, boolean, number, bigint or null'')
      else if list_ex (\<lambda>b. b = BindNull) bs
      then Inl (NotNullConstraint ''post_categories.category_id'')
      else if \<not> distinct bs
      then Inl (UniqueConstraint ''post_categories.post_id, post_categories.category_id'')
      else if sqlite_foreign_keys L \<and> list_ex is_text bs
      then Inl ForeignKeyConstraint
      else insert_post_categories L db
             (map (\<lambda>categoryId. \<lparr>pc_postId = pid, pc_categoryId = categoryId\<rparr>)
                (bound_integers bs)))"

text \<open>
  \<open>db.select().from(categories).where(inArray(categories.id, categoryIds))\<close> for a
  non-empty array: the categories whose id is one of the elements as SQLite compares
  them. The statement throws when the driver cannot bind an element.
\<close>

definition select_categories_in ::
  "lib \<Rightarrow> database \<Rightarrow> jsval list \<Rightarrow> db_error + category_row list" where
  "select_categories_in L db categoryIds =
     (let bs = map (bind_value L) categoryIds in
      if list_ex (\<lambda>b. b = BindThrows) bs
      then Inl (SqlError ''Binding expected string, TypedArray, boolean, number, bigint or null'')
      else Inr (filter (\<lambda>c. cat_id c \<in> set (bound_integers bs)) (categories db)))"

section \<open>Requests and responses\<close>

text \<open>
  A request as the controllers see it: the caller identity set by \<open>authMiddleware\<close>,
  the route parameter \<open>id\<close>, the query parameters, and the result of
  \<open>request.json()\<close>, which throws (\<open>Inl\<close> the message of the error) when the body is
  not JSON.
\<close>

record request =
  req_user :: "auth_user option"
  req_id :: "string option"
  req_query :: "string \<Rightarrow> string option"
  req_json :: "string + jsval"

record response =
  resp_status :: nat
  resp_body :: jsval

text \<open>\<open>createAPIResponse\<close> (utils/wrapper.ts): status 200 unless an option sets it.\<close>

definition createAPIResponse ::
  "bool \<Rightarrow> string \<Rightarrow> jsval option \<Rightarrow> string list option \<Rightarrow> nat option \<Rightarrow> response" where
  "createAPIResponse success message data errors st =
     \<lparr>resp_status = (case st of None \<Rightarrow> 200 | Some n \<Rightarrow> n),
      resp_body = JObj ([(''success'', JBool success), (''message'', JStr message)]
                   @ (case data of None \<Rightarrow> [] | Some d \<Rightarrow> [(''data'', d)])
                   @ (case errors of None \<Rightarrow> [] | Some es \<Rightarrow> [(''errors'', JArr (map JStr es))]))\<rparr>"

record pagination =
  pg_page :: int
  pg_limit :: int
  pg_total :: int
  pg_totalPages :: int

definition createPaginatedResponse :: "jsval list \<Rightarrow> pagination \<Rightarrow> response" where
  "createPaginatedResponse rows pg =
     \<lparr>resp_status = 200,
      resp_body = JObj [(''success'', JBool True), (''data'', JArr rows),
                   (''pagination'',
                    JObj [(''page'', JNum (pg_page pg)), (''limit'', JNum (pg_limit pg)),
                          (''total'', JNum (pg_total pg)),
                          (''totalPages'', JNum (pg_totalPages pg))])]\<rparr>"

text \<open>The catch blocks: a ZodError becomes 400 with its issues, anything else 500.\<close>

definition validation_error :: "string list \<Rightarrow> response" where
  "validation_error is = createAPIResponse False ''Validation error'' None (Some is) (Some 400)"

definition internal_error_with :: "string \<Rightarrow> response" where
  "internal_error_with msg =
     createAPIResponse False ''Internal server error'' None (Some [msg]) (Some 500)"

definition internal_error :: response where
  "internal_error = createAPIResponse False ''Internal server error'' None None (Some 500)"

definition invalid_slug :: response where
  "invalid_slug =
     createAPIResponse False ''Invalid slug format'' None
       (Some [''Slug must contain only lowercase letters, numbers, and hyphens'']) (Some 400)"

definition failure :: "nat \<Rightarrow> string \<Rightarrow> response" where
  "failure st message = createAPIResponse False message None None (Some st)"

section \<open>Credentials and tokens (utils/auth.ts, middleware/auth.ts)\<close>

definition JWT_SECRET :: "lib \<Rightarrow> string" where
  "JWT_SECRET L = (if truthy (env_JWT_SECRET L) then the (env_JWT_SECRET L) else ''your-secret-key'')"

definition JWT_EXPIRES_IN :: "lib \<Rightarrow> string" where
  "JWT_EXPIRES_IN L = (if truthy (env_JWT_EXPIRES_IN L) then the (env_JWT_EXPIRES_IN L) else ''7d'')"

definition hashPassword :: "lib \<Rightarrow> string \<Rightarrow> string" where
  "hashPassword L password = bcrypt_hash L password"

definition verifyPassword :: "lib \<Rightarrow> string \<Rightarrow> string \<Rightarrow> bool" where
  "verifyPassword L password hashedPassword = bcrypt_compare L password hashedPassword"

definition generateToken :: "lib \<Rightarrow> int \<Rightarrow> jwt_payload \<Rightarrow> string" where
  "generateToken L now payload = jwt_sign L payload (JWT_SECRET L) (JWT_EXPIRES_IN L) now"

text \<open>\<open>verifyToken\<close>: whatever \<open>jwt.verify\<close> throws is caught and becomes \<open>null\<close>.\<close>

definition verifyToken :: "lib \<Rightarrow> int \<Rightarrow> string \<Rightarrow> jwt_payload option" where
  "verifyToken L now token =
     (case jwt_verify L token (JWT_SECRET L) now of Inl _ \<Rightarrow> None | Inr p \<Rightarrow> Some p)"

definition extractTokenFromHeader :: "string option \<Rightarrow> string option" where
  "extractTokenFromHeader authHeader =
     (case authHeader of
        None \<Rightarrow> None
      | Some h \<Rightarrow> if h = [] \<or> take 7 h \<noteq> ''Bearer '' then None else Some (drop 7 h))"

text \<open>
  \<open>authMiddleware\<close>: a response that ends the request, or the identity it stores in
  \<open>request.user\<close>. \<open>adminMiddleware\<close>: a response that ends the request, or nothing.
\<close>

definition authMiddleware :: "lib \<Rightarrow> int \<Rightarrow> string option \<Rightarrow> response + auth_user" where
  "authMiddleware L now authHeader =
     (case extractTokenFromHeader authHeader of
        None \<Rightarrow> Inl \<lparr>resp_status = 401,
                     resp_body = JObj [(''success'', JBool False),
                                  (''message'', JStr ''Access token required'')]\<rparr>
      | Some token \<Rightarrow>
          (if token = [] then
             Inl \<lparr>resp_status = 401,
                  resp_body = JObj [(''success'', JBool False),
                               (''message'', JStr ''Access token required'')]\<rparr>
           else
             (case verifyToken L now token of
                None \<Rightarrow> Inl \<lparr>resp_status = 401,
                             resp_body = JObj [(''success'', JBool False),
                                          (''message'', JStr ''Invalid or expired token'')]\<rparr>
              | Some payload \<Rightarrow>
                  Inr \<lparr>au_id = jp_userId payload, au_username = jp_username payload,
                       au_email = jp_email payload, au_role = jp_role payload\<rparr>)))"

definition adminMiddleware :: "auth_user option \<Rightarrow> response option" where
  "adminMiddleware user =
     (case user of
        None \<Rightarrow> Some \<lparr>resp_status = 401,
                      resp_body = JObj [(''success'', JBool False),
                                   (''message'', JStr ''Authentication required'')]\<rparr>
      | Some u \<Rightarrow>
          if au_role u \<noteq> Admin then
            Some \<lparr>resp_status = 403,
                  resp_body = JObj [(''success'', JBool False),
                               (''message'', JStr ''Admin access required'')]\<rparr>
          else None)"

section \<open>Authentication controller (controllers/authController.ts)\<close>

text \<open>A row of \<open>users\<close> as the object the query builder returns.\<close>

definition user_obj :: "user_row \<Rightarrow> (string \<times> jsval) list" where
  "user_obj u =
     [(''id'', JNum (user_id u)), (''username'', JStr (user_username u)),
      (''email'', JStr (user_email u)), (''password'', JStr (user_password u)),
      (''role'', JStr (role_str (user_role u))), (''createdAt'', JDate (user_createdAt u)),
      (''updatedAt'', JDate (user_updatedAt u))]"

definition register :: "lib \<Rightarrow> int \<Rightarrow> database \<Rightarrow> request \<Rightarrow> response \<times> database" where
  "register L now db req =
     (case req_json req of
        Inl msg \<Rightarrow> (internal_error, db)
      | Inr body \<Rightarrow>
          (case insertUserSchema L body of
             Inl is \<Rightarrow> (validation_error is, db)
           | Inr validated \<Rightarrow>
               (let hashedPassword = hashPassword L (iu_password validated) in
                case insert_user_row db (iu_username validated) (iu_email validated)
                       hashedPassword (iu_role validated) now of
                  Inl (UniqueConstraint cols) \<Rightarrow>
                    (createAPIResponse False ''Username or email already exists'' None
                       (Some [db_error_message (UniqueConstraint cols)]) (Some 409), db)
                | Inl e \<Rightarrow> (internal_error, db)
                | Inr (user, db') \<Rightarrow>
                    (let userWithoutPassword = omit ''password'' (user_obj user) in
                     (createAPIResponse True ''User registered successfully''
                        (Some (JObj userWithoutPassword)) None (Some 201), db')))))"

definition login :: "lib \<Rightarrow> int \<Rightarrow> database \<Rightarrow> request \<Rightarrow> response \<times> database" where
  "login L now db req =
     (case req_json req of
        Inl msg \<Rightarrow> (internal_error, db)
      | Inr body \<Rightarrow>
          (case loginSchema body of
             Inl is \<Rightarrow> (validation_error is, db)
           | Inr (username, password) \<Rightarrow>
               (case find (\<lambda>u. user_username u = username) (users db) of
                  None \<Rightarrow> (failure 401 ''Invalid username or password'', db)
                | Some user \<Rightarrow>
                    if \<not> verifyPassword L password (user_password user)
                    then (failure 401 ''Invalid username or password'', db)
                    else
                      (let payload = \<lparr>jp_userId = user_id user,
                                      jp_username = user_username user,
                                      jp_email = user_email user, jp_role = user_role user\<rparr>;
                           token = generateToken L now payload;
                           userWithoutPassword = omit ''password'' (user_obj user)
                       in (createAPIResponse True ''Login successful''
                             (Some (JObj [(''user'', JObj userWithoutPassword),
                                          (''token'', JStr token)])) None None, db)))))"

section \<open>User controller (controllers/userController.ts)\<close>

definition changePassword :: "lib \<Rightarrow> int \<Rightarrow> database \<Rightarrow> request \<Rightarrow> response \<times> database" where
  "changePassword L now db req =
     (case req_user req of
        None \<Rightarrow> (failure 401 ''Authentication required'', db)
      | Some caller \<Rightarrow>
          (case req_json req of
             Inl msg \<Rightarrow> (internal_error, db)
           | Inr body \<Rightarrow>
               (case changePasswordSchema body of
                  Inl is \<Rightarrow> (validation_error is, db)
                | Inr (currentPassword, newPassword) \<Rightarrow>
                    (case find (\<lambda>u. user_id u = au_id caller) (users db) of
                       None \<Rightarrow> (failure 401 ''Current password is incorrect'', db)
                     | Some user \<Rightarrow>
                         if \<not> verifyPassword L currentPassword (user_password user)
                         then (failure 401 ''Current password is incorrect'', db)
                         else
                           (createAPIResponse True ''Password changed successfully''
                              None None None,
                            update_user_password db (au_id caller)
                              (hashPassword L newPassword) now)))))"

section \<open>Post controller (controllers/postController.ts)\<close>

text \<open>
  The post with its author (a left join on \<open>users\<close>: \<open>null\<close> where no user has the
  id) and the categories of a post (a left join of its association rows on
  \<open>categories\<close>).
\<close>

definition post_author :: "database \<Rightarrow> post_row \<Rightarrow> jsval" where
  "post_author db p =
     (case find (\<lambda>u. user_id u = post_authorId p) (users db) of
        None \<Rightarrow> JNull
      | Some u \<Rightarrow> JObj [(''id'', JNum (user_id u)), (''username'', JStr (user_username u)),
                        (''email'', JStr (user_email u))])"

definition postWithAuthor :: "database \<Rightarrow> post_row \<Rightarrow> (string \<times> jsval) list" where
  "postWithAuthor db p =
     [(''id'', JNum (post_id p)), (''title'', JStr (post_title p)),
      (''slug'', JStr (post_slug p)), (''content'', JStr (post_content p)),
      (''contentType'', JStr (content_type_str (post_contentType p))),
      (''excerpt'', js_nullable (post_excerpt p)),
      (''status'', JStr (status_str (post_status p))),
      (''featuredImage'', js_nullable (post_featuredImage p)),
      (''author'', post_author db p),
      (''createdAt'', JDate (post_createdAt p)), (''updatedAt'', JDate (post_updatedAt p))]"

definition postCategoriesList :: "database \<Rightarrow> int \<Rightarrow> jsval list" where
  "postCategoriesList db pid =
     map (\<lambda>r. case find (\<lambda>c. cat_id c = pc_categoryId r) (categories db) of
                 None \<Rightarrow> JObj [(''id'', JNull), (''name'', JNull), (''slug'', JNull)]
               | Some c \<Rightarrow> JObj [(''id'', JNum (cat_id c)), (''name'', JStr (cat_name c)),
                                 (''slug'', JStr (cat_slug c))])
       (filter (\<lambda>r. pc_postId r = pid) (postCategories db))"

definition postWithCategories :: "database \<Rightarrow> int \<Rightarrow> jsval" where
  "postWithCategories db pid =
     JObj ((case find (\<lambda>p. post_id p = pid) (posts db) of
              None \<Rightarrow> []
            | Some p \<Rightarrow> postWithAuthor db p)
           @ [(''categories'', JArr (postCategoriesList db pid))])"

text \<open>
  The two blocks of \<open>createPost\<close> and \<open>updatePost\<close> that use \<open>categoryIds\<close>.

  \<open>categories_found\<close> is the check of \<open>createPost\<close>: when
  \<open>categoryIds.length > 0\<close>, the categories named by \<open>categoryIds\<close> are selected and
  their number is compared with \<open>categoryIds.length\<close>; \<open>False\<close> is the answer 404.
  For a value that is not an array, \<open>inArray\<close> renders \<open>id in ?\<close>, which SQLite
  does not parse, so the statement throws.

  \<open>assign_categories\<close> is \<open>if (categoryIds.length > 0) insert ...\<close>: a value with a
  positive length that is not an array has no \<open>map\<close>, and the call throws a TypeError.
\<close>

definition categories_found :: "lib \<Rightarrow> database \<Rightarrow> jsval \<Rightarrow> db_error + bool" where
  "categories_found L db categoryIds =
     (if length_positive L categoryIds
      then (case categoryIds of
              JArr vs \<Rightarrow>
                (case select_categories_in L db vs of
                   Inl e \<Rightarrow> Inl e
                 | Inr validCategories \<Rightarrow> Inr (length validCategories = length vs))
            | _ \<Rightarrow> Inl (SqlError ''near ?: syntax error''))
      else Inr True)"

definition assign_categories :: "lib \<Rightarrow> database \<Rightarrow> int \<Rightarrow> jsval \<Rightarrow> string + database" where
  "assign_categories L db pid categoryIds =
     (if length_positive L categoryIds
      then (case categoryIds of
              JArr vs \<Rightarrow>
                (case insert_categories L db pid vs of
                   Inl e \<Rightarrow> Inl (db_error_message e)
                 | Inr db' \<Rightarrow> Inr db')
            | _ \<Rightarrow> Inl ''categoryIds.map is not a function'')
      else Inr db)"

text \<open>
  The block of \<open>updatePost\<close>: when \<open>categoryIds\<close> is truthy, the association rows of
  the post are deleted and the new ones assigned. \<open>Inl\<close> carries the message of the
  error thrown and the store as the statements before it left it.
\<close>

definition replace_categories ::
  "lib \<Rightarrow> database \<Rightarrow> int \<Rightarrow> jsval option \<Rightarrow> (string \<times> database) + database" where
  "replace_categories L db pid categoryIds =
     (if js_truthy categoryIds
      then (let db2 = delete_post_categories db pid
            in case assign_categories L db2 pid (the categoryIds) of
                 Inl msg \<Rightarrow> Inl (msg, db2)
               | Inr db3 \<Rightarrow> Inr db3)
      else Inr db)"

definition createPost :: "lib \<Rightarrow> int \<Rightarrow> database \<Rightarrow> request \<Rightarrow> response \<times> database" where
  "createPost L now db req =
     (case req_user req of
        None \<Rightarrow> (failure 401 ''Authentication required'', db)
      | Some caller \<Rightarrow>
          (case req_json req of
             Inl msg \<Rightarrow> (internal_error_with msg, db)
           | Inr json \<Rightarrow>
               (case insertPostSchema L json of
                  Inl is \<Rightarrow> (validation_error is, db)
                | Inr d \<Rightarrow>
                    if \<not> validateSlug (ip_slug d) then (invalid_slug, db)
                    else if find (\<lambda>p. post_slug p = ip_slug d) (posts db) \<noteq> None
                    then (failure 409 ''Post slug already exists'', db)
                    else
                      (let categoryIds =
                             (if js_truthy (js_prop json ''categoryIds'')
                              then the (js_prop json ''categoryIds'') else JArr [])
                       in case categories_found L db categoryIds of
                            Inl e \<Rightarrow> (internal_error_with (db_error_message e), db)
                          | Inr False \<Rightarrow>
                              (failure 404 ''One or more categories not found'', db)
                          | Inr True \<Rightarrow>
                              (case insert_post_row L db d (au_id caller) now of
                                 Inl e \<Rightarrow> (internal_error_with (db_error_message e), db)
                               | Inr (post, db1) \<Rightarrow>
                                   (case assign_categories L db1 (post_id post) categoryIds of
                                      Inl msg \<Rightarrow> (internal_error_with msg, db1)
                                    | Inr db2 \<Rightarrow>
                                        (createAPIResponse True ''Post created successfully''
                                           (Some (postWithCategories db2 (post_id post))) None
                                           (Some 201), db2)))))))"

text \<open>
  \<open>updatePost\<close>. The checks run in the order of the source: caller, id, body schema,
  slug format, existence, ownership, slug conflict; then the update statement, then
  the replacement of the associations when \<open>categoryIds\<close> is truthy.
  The statements are not in a transaction: what ran before a failing statement stays.
\<close>

definition post_updated :: "database \<Rightarrow> int \<Rightarrow> response" where
  "post_updated db pid =
     createAPIResponse True ''Post updated successfully'' (Some (postWithCategories db pid))
       None None"

definition updatePost :: "lib \<Rightarrow> int \<Rightarrow> database \<Rightarrow> request \<Rightarrow> response \<times> database" where
  "updatePost L now db req =
     (case req_user req of
        None \<Rightarrow> (failure 401 ''Authentication required'', db)
      | Some caller \<Rightarrow>
          if \<not> truthy (req_id req) then (failure 400 ''Post ID is required'', db)
          else
            (case req_json req of
               Inl msg \<Rightarrow> (internal_error_with msg, db)
             | Inr json \<Rightarrow>
                 (case postUpdateSchema L json of
                    Inl is \<Rightarrow> (validation_error is, db)
                  | Inr d \<Rightarrow>
                      if truthy (pu_slug d) \<and> \<not> validateSlug (the (pu_slug d))
                      then (invalid_slug, db)
                      else
                        (case (case js_parseInt L (the (req_id req)) of
                                 None \<Rightarrow> None
                               | Some pid \<Rightarrow>
                                   map_option (\<lambda>p. (pid, p))
                                     (find (\<lambda>p. post_id p = pid) (posts db))) of
                           None \<Rightarrow> (failure 404 ''Post not found'', db)
                         | Some (pid, existingPost) \<Rightarrow>
                             if post_authorId existingPost \<noteq> au_id caller
                                \<and> au_role caller \<noteq> Admin
                             then (failure 403 ''You can only edit your own posts'', db)
                             else if truthy (pu_slug d)
                                     \<and> the (pu_slug d) \<noteq> post_slug existingPost
                                     \<and> find (\<lambda>p. Some (post_slug p) = pu_slug d) (posts db)
                                         \<noteq> None
                             then (failure 409 ''Post slug already exists'', db)
                             else
                               (case update_post_row db pid d now of
                                  Inl e \<Rightarrow> (internal_error_with (db_error_message e), db)
                                | Inr db1 \<Rightarrow>
                                    (case replace_categories L db1 pid
                                            (js_prop json ''categoryIds'') of
                                       Inl (msg, db2) \<Rightarrow> (internal_error_with msg, db2)
                                     | Inr db3 \<Rightarrow> (post_updated db3 pid, db3)))))))"

text \<open>\<open>deletePost\<close>: the association rows of the post go first, then the post row.\<close>

definition deletePost :: "lib \<Rightarrow> int \<Rightarrow> database \<Rightarrow> request \<Rightarrow> response \<times> database" where
  "deletePost L now db req =
     (case req_user req of
        None \<Rightarrow> (failure 401 ''Authentication required'', db)
      | Some caller \<Rightarrow>
          if \<not> truthy (req_id req) then (failure 400 ''Post ID is required'', db)
          else
            (case (case js_parseInt L (the (req_id req)) of
                     None \<Rightarrow> None
                   | Some pid \<Rightarrow>
                       map_option (\<lambda>p. (pid, p)) (find (\<lambda>p. post_id p = pid) (posts db))) of
               None \<Rightarrow> (failure 404 ''Post not found'', db)
             | Some (pid, existingPost) \<Rightarrow>
                 if post_authorId existingPost \<noteq> au_id caller \<and> au_role caller \<noteq> Admin
                 then (failure 403 ''You can only delete your own posts'', db)
                 else
                   (let db1 = delete_post_categories db pid in
                    case delete_post_row L db1 pid of
                      Inl e \<Rightarrow> (internal_error_with (db_error_message e), db1)
                    | Inr db2 \<Rightarrow>
                        (createAPIResponse True ''Post deleted successfully'' None None None,
                         db2))))"

section \<open>Category controller (controllers/categoryController.ts)\<close>

definition category_obj :: "category_row \<Rightarrow> jsval" where
  "category_obj c =
     JObj [(''id'', JNum (cat_id c)), (''name'', JStr (cat_name c)),
           (''slug'', JStr (cat_slug c)), (''description'', js_nullable (cat_description c)),
           (''createdAt'', JDate (cat_createdAt c)), (''updatedAt'', JDate (cat_updatedAt c))]"

definition is_admin :: "auth_user option \<Rightarrow> bool" where
  "is_admin user = (case user of None \<Rightarrow> False | Some u \<Rightarrow> au_role u = Admin)"

definition createCategory :: "lib \<Rightarrow> int \<Rightarrow> database \<Rightarrow> request \<Rightarrow> response \<times> database" where
  "createCategory L now db req =
     (if \<not> is_admin (req_user req) then (failure 403 ''Admin access required'', db)
      else
        (case req_json req of
           Inl msg \<Rightarrow> (internal_error, db)
         | Inr json \<Rightarrow>
             (case insertCategorySchema json of
                Inl is \<Rightarrow> (validation_error is, db)
              | Inr d \<Rightarrow>
                  if \<not> validateSlug (ic_slug d) then (invalid_slug, db)
                  else if find (\<lambda>c. cat_slug c = ic_slug d) (categories db) \<noteq> None
                  then (failure 409 ''Category slug already exists'', db)
                  else
                    (case insert_category_row db d now of
                       Inl e \<Rightarrow> (internal_error, db)
                     | Inr (category, db1) \<Rightarrow>
                         (createAPIResponse True ''Category created successfully''
                            (Some (category_obj category)) None (Some 201), db1)))))"

definition updateCategory :: "lib \<Rightarrow> int \<Rightarrow> database \<Rightarrow> request \<Rightarrow> response \<times> database" where
  "updateCategory L now db req =
     (if \<not> is_admin (req_user req) then (failure 403 ''Admin access required'', db)
      else if \<not> truthy (req_id req) then (failure 400 ''Category ID is required'', db)
      else
        (case req_json req of
           Inl msg \<Rightarrow> (internal_error, db)
         | Inr json \<Rightarrow>
             (case categoryUpdateSchema json of
                Inl is \<Rightarrow> (validation_error is, db)
              | Inr d \<Rightarrow>
                  if truthy (cu_slug d) \<and> \<not> validateSlug (the (cu_slug d))
                  then (invalid_slug, db)
                  else
                    (case (case js_parseInt L (the (req_id req)) of
                             None \<Rightarrow> None
                           | Some cid \<Rightarrow>
                               map_option (\<lambda>c. (cid, c))
                                 (find (\<lambda>c. cat_id c = cid) (categories db))) of
                       None \<Rightarrow> (failure 404 ''Category not found'', db)
                     | Some (cid, existingCategory) \<Rightarrow>
                         if truthy (cu_slug d)
                            \<and> the (cu_slug d) \<noteq> cat_slug existingCategory
                            \<and> find (\<lambda>c. Some (cat_slug c) = cu_slug d) (categories db) \<noteq> None
                         then (failure 409 ''Category slug already exists'', db)
                         else
                           (case update_category_row db cid d now of
                              Inl e \<Rightarrow> (internal_error, db)
                            | Inr db1 \<Rightarrow>
                                (createAPIResponse True ''Category updated successfully''
                                   (map_option category_obj
                                      (find (\<lambda>c. cat_id c = cid) (categories db1)))
                                   None None, db1))))))"

text \<open>
  \<open>deleteCategory\<close>: \<open>COUNT(*)\<close> of the association rows of the category; a positive
  count refuses the deletion with status 400.
\<close>

definition deleteCategory :: "lib \<Rightarrow> int \<Rightarrow> database \<Rightarrow> request \<Rightarrow> response \<times> database" where
  "deleteCategory L now db req =
     (if \<not> is_admin (req_user req) then (failure 403 ''Admin access required'', db)
      else if \<not> truthy (req_id req) then (failure 400 ''Category ID is required'', db)
      else
        (case (case js_parseInt L (the (req_id req)) of
                 None \<Rightarrow> None
               | Some cid \<Rightarrow>
                   map_option (\<lambda>c. (cid, c)) (find (\<lambda>c. cat_id c = cid) (categories db))) of
           None \<Rightarrow> (failure 404 ''Category not found'', db)
         | Some (cid, existingCategory) \<Rightarrow>
             (let count = int (length (filter (\<lambda>r. pc_categoryId r = cid) (postCategories db)))
              in if count > 0
                 then (failure 400 ''Cannot delete category with associated posts'', db)
                 else
                   (case delete_category_row L db cid of
                      Inl e \<Rightarrow> (internal_error, db)
                    | Inr db1 \<Rightarrow>
                        (createAPIResponse True ''Category deleted successfully'' None None None,
                         db1)))))"

section \<open>Listing posts (getPosts)\<close>

text \<open>
  White space as the class \<^verbatim>\<open>\s\<close> of a JavaScript regular expression sees it,
  among the code units 0 to 255: tab, line feed, vertical tab, form feed, carriage return, space and
  the no-break space.
\<close>

definition js_space :: "char \<Rightarrow> bool" where
  "js_space c = (code_unit c \<in> {9, 10, 11, 12, 13, 32, 160})"

text \<open>
  \<^verbatim>\<open>s.split(/\s+/)\<close>: the pieces between maximal runs of white space; a run at the
  start or the end leaves an empty piece there.
\<close>

function split_ws :: "string \<Rightarrow> string \<Rightarrow> string list" where
  "split_ws cur [] = [rev cur]"
| "split_ws cur (c # cs) =
     (if js_space c then rev cur # split_ws [] (dropWhile js_space cs)
      else split_ws (c # cur) cs)"
  by pat_completeness auto
termination
  by (relation "measure (\<lambda>(cur, s). length s)")
     (auto simp: le_imp_less_Suc length_dropWhile_le)

definition search_keywords :: "string \<Rightarrow> string list" where
  "search_keywords search = filter (\<lambda>k. length k > 0) (split_ws [] search)"

text \<open>
  The \<open>LIKE\<close> operator of SQLite as \<open>like(column, pattern)\<close> issues it, without an
  escape character: \<open>%\<close> matches any run of characters, \<open>_\<close> any one character, and
  any other character matches itself, the ASCII letters without regard to case.
\<close>

definition ascii_lower :: "char \<Rightarrow> char" where
  "ascii_lower c = (if in_range (CHR ''A'') (CHR ''Z'') c then char_of (code_unit c + 32) else c)"

fun sql_like :: "string \<Rightarrow> string \<Rightarrow> bool" where
  "sql_like [] t = (t = [])"
| "sql_like (p # ps) [] = (p = CHR ''%'' \<and> sql_like ps [])"
| "sql_like (p # ps) (c # cs) =
     (if p = CHR ''%'' then sql_like ps (c # cs) \<or> sql_like (p # ps) cs
      else (p = CHR ''_'' \<or> ascii_lower p = ascii_lower c) \<and> sql_like ps cs)"

definition like_contains :: "string \<Rightarrow> string \<Rightarrow> bool" where
  "like_contains column keyword = sql_like (''%'' @ keyword @ ''%'') column"

text \<open>
  The conditions \<open>getPosts\<close> collects, each a predicate on a post row. The search
  condition is pushed only when the search string is non-empty and has a keyword.
\<close>

definition search_condition :: "string \<Rightarrow> post_row \<Rightarrow> bool" where
  "search_condition search p =
     list_ex (\<lambda>keyword. like_contains (post_title p) keyword
                         \<or> like_contains (post_content p) keyword) (search_keywords search)"

definition conditions :: "posts_query \<Rightarrow> (post_row \<Rightarrow> bool) list" where
  "conditions q =
     (case pq_status q of None \<Rightarrow> [] | Some s \<Rightarrow> [\<lambda>p. post_status p = s])
     @ (case pq_author q of
          None \<Rightarrow> []
        | Some a \<Rightarrow> if a \<noteq> 0 then [\<lambda>p. post_authorId p = a] else [])
     @ (if truthy (pq_search q) \<and> search_keywords (the (pq_search q)) \<noteq> []
        then [search_condition (the (pq_search q))] else [])"

text \<open>
  The category filter: the posts associated with the category, or the impossible
  condition \<open>id = -1\<close> when there are none.
\<close>

definition categoryFilter :: "database \<Rightarrow> int \<Rightarrow> post_row \<Rightarrow> bool" where
  "categoryFilter db category =
     (let postIds = map pc_postId (filter (\<lambda>cp. pc_categoryId cp = category) (postCategories db))
      in if postIds \<noteq> [] then (\<lambda>p. post_id p \<in> set postIds) else (\<lambda>p. post_id p = - 1))"

definition whereClause :: "database \<Rightarrow> posts_query \<Rightarrow> (post_row \<Rightarrow> bool) option" where
  "whereClause db q =
     (let w = (if conditions q \<noteq> [] then Some (\<lambda>p. list_all (\<lambda>c. c p) (conditions q))
               else None)
      in case pq_category q of
           None \<Rightarrow> w
         | Some category \<Rightarrow>
             if category \<noteq> 0
             then (case w of
                     None \<Rightarrow> Some (categoryFilter db category)
                   | Some c \<Rightarrow> Some (\<lambda>p. c p \<and> categoryFilter db category p))
             else w)"

definition select_where :: "(post_row \<Rightarrow> bool) option \<Rightarrow> post_row list \<Rightarrow> post_row list" where
  "select_where w rows = (case w of None \<Rightarrow> rows | Some c \<Rightarrow> filter c rows)"

text \<open>
  \<open>ORDER BY\<close> as a stable insertion sort of the rows in table order. Text compares
  by code units (the \<open>BINARY\<close> collation).
\<close>

fun str_le :: "string \<Rightarrow> string \<Rightarrow> bool" where
  "str_le [] t = True"
| "str_le (a # as) [] = False"
| "str_le (a # as) (b # bs) = (code_unit a < code_unit b \<or> (a = b \<and> str_le as bs))"

fun insert_by :: "('a \<Rightarrow> 'a \<Rightarrow> bool) \<Rightarrow> 'a \<Rightarrow> 'a list \<Rightarrow> 'a list" where
  "insert_by le x [] = [x]"
| "insert_by le x (y # ys) = (if le x y then x # y # ys else y # insert_by le x ys)"

definition order_by :: "('a \<Rightarrow> 'a \<Rightarrow> bool) \<Rightarrow> 'a list \<Rightarrow> 'a list" where
  "order_by le rows = foldr (insert_by le) rows []"

definition orderBy :: "posts_query \<Rightarrow> post_row \<Rightarrow> post_row \<Rightarrow> bool" where
  "orderBy q =
     (let col_le = (case pq_sortBy q of
                      Created_at \<Rightarrow> (\<lambda>a b. post_createdAt a \<le> post_createdAt b)
                    | Updated_at \<Rightarrow> (\<lambda>a b. post_updatedAt a \<le> post_updatedAt b)
                    | Title \<Rightarrow> (\<lambda>a b. str_le (post_title a) (post_title b)))
      in case pq_sortOrder q of Desc \<Rightarrow> (\<lambda>a b. col_le b a) | Asc \<Rightarrow> col_le)"

text \<open>
  A row of the listing. The left join is on \<open>users.id\<close>, the primary key of
  \<open>users\<close>, so it yields one row for each post: the author, or \<open>null\<close> where no
  user has the id.
\<close>

definition post_listing :: "database \<Rightarrow> post_row \<Rightarrow> jsval" where
  "post_listing db p =
     JObj [(''id'', JNum (post_id p)), (''title'', JStr (post_title p)),
           (''slug'', JStr (post_slug p)), (''excerpt'', js_nullable (post_excerpt p)),
           (''status'', JStr (status_str (post_status p))),
           (''featuredImage'', js_nullable (post_featuredImage p)),
           (''author'',
            (case find (\<lambda>u. user_id u = post_authorId p) (users db) of
               None \<Rightarrow> JNull
             | Some u \<Rightarrow> JObj [(''id'', JNum (user_id u)),
                               (''username'', JStr (user_username u))])),
           (''createdAt'', JDate (post_createdAt p)),
           (''updatedAt'', JDate (post_updatedAt p))]"

text \<open>
  The page of rows: filter, sort, skip \<open>offset\<close>, keep \<open>limit\<close>. The count is
  \<open>COUNT(posts.id)\<close> over the same filter, and \<open>totalPages\<close> is
  \<open>Math.ceil(totalCount / limit)\<close>, here in integer arithmetic.
\<close>

definition postsList :: "database \<Rightarrow> posts_query \<Rightarrow> post_row list" where
  "postsList db q =
     (let offset = (pq_page q - 1) * pq_limit q
      in take (nat (pq_limit q))
           (drop (nat offset) (order_by (orderBy q) (select_where (whereClause db q) (posts db)))))"

definition totalCount :: "database \<Rightarrow> posts_query \<Rightarrow> int" where
  "totalCount db q = int (length (select_where (whereClause db q) (posts db)))"

definition ceil_div :: "int \<Rightarrow> int \<Rightarrow> int" where
  "ceil_div a b = - ((- a) div b)"

definition getPosts :: "lib \<Rightarrow> database \<Rightarrow> request \<Rightarrow> response" where
  "getPosts L db req =
     (case postsQuerySchema (posts_query_of L (req_query req)) of
        Inl is \<Rightarrow> validation_error is
      | Inr query \<Rightarrow>
          createPaginatedResponse (map (post_listing db) (postsList db query))
            \<lparr>pg_page = pq_page query, pg_limit = pq_limit query,
             pg_total = totalCount db query,
             pg_totalPages = ceil_div (totalCount db query) (pq_limit query)\<rparr>)"

section \<open>The operations of the API\<close>

text \<open>
  The endpoints that write to the store, and the listing. The other endpoints
  (\<open>getPost\<close>, \<open>getCategories\<close>, \<open>getCategory\<close>, \<open>getProfile\<close>, the health check)
  issue \<open>SELECT\<close> statements only.
\<close>

datatype operation =
    Register | Login | ChangePassword
  | CreatePost | UpdatePost | DeletePost | GetPosts
  | CreateCategory | UpdateCategory | DeleteCategory

definition perform ::
  "lib \<Rightarrow> int \<Rightarrow> operation \<Rightarrow> database \<Rightarrow> request \<Rightarrow> response \<times> database" where
  "perform L now op db req =
     (case op of
        Register \<Rightarrow> register L now db req
      | Login \<Rightarrow> login L now db req
      | ChangePassword \<Rightarrow> changePassword L now db req
      | CreatePost \<Rightarrow> createPost L now db req
      | UpdatePost \<Rightarrow> updatePost L now db req
      | DeletePost \<Rightarrow> deletePost L now db req
      | GetPosts \<Rightarrow> (getPosts L db req, db)
      | CreateCategory \<Rightarrow> createCategory L now db req
      | UpdateCategory \<Rightarrow> updateCategory L now db req
      | DeleteCategory \<Rightarrow> deleteCategory L now db req)"

section \<open>Notions the properties are stated with\<close>

text \<open>Every association row names a post that exists.\<close>

definition associations_have_posts :: "database \<Rightarrow> bool" where
  "associations_have_posts db =
     list_all (\<lambda>r. list_ex (\<lambda>p. post_id p = pc_postId r) (posts db)) (postCategories db)"

text \<open>The post a request addresses: its \<open>id\<close> parameter read by \<open>parseInt\<close>.\<close>

definition addressed_post :: "lib \<Rightarrow> database \<Rightarrow> request \<Rightarrow> (int \<times> post_row) option" where
  "addressed_post L db req =
     (case req_id req of
        None \<Rightarrow> None
      | Some s \<Rightarrow>
          if s = [] then None
          else (case js_parseInt L s of
                  None \<Rightarrow> None
                | Some pid \<Rightarrow>
                    map_option (\<lambda>p. (pid, p)) (find (\<lambda>p. post_id p = pid) (posts db))))"

definition addressed_category ::
  "lib \<Rightarrow> database \<Rightarrow> request \<Rightarrow> (int \<times> category_row) option" where
  "addressed_category L db req =
     (case req_id req of
        None \<Rightarrow> None
      | Some s \<Rightarrow>
          if s = [] then None
          else (case js_parseInt L s of
                  None \<Rightarrow> None
                | Some cid \<Rightarrow>
                    map_option (\<lambda>c. (cid, c)) (find (\<lambda>c. cat_id c = cid) (categories db))))"

text \<open>The caller may mutate the post: its author, or an admin.\<close>

definition owner_or_admin :: "auth_user \<Rightarrow> post_row \<Rightarrow> bool" where
  "owner_or_admin caller p = (au_id caller = post_authorId p \<or> au_role caller = Admin)"

text \<open>The new slug of an update is the slug of a post already, and not the old slug.\<close>

definition slug_taken :: "database \<Rightarrow> post_update \<Rightarrow> post_row \<Rightarrow> bool" where
  "slug_taken db d p =
     (case pu_slug d of
        None \<Rightarrow> False
      | Some s \<Rightarrow> s \<noteq> post_slug p \<and> list_ex (\<lambda>q. post_slug q = s) (posts db))"

text \<open>A response reports success: the \<open>success\<close> property of its body is \<open>true\<close>.\<close>

definition succeeded :: "response \<Rightarrow> bool" where
  "succeeded r = (js_prop (resp_body r) ''success'' = Some (JBool True))"



section \<open>Concrete instances for evaluation\<close>

text \<open>
  A library instance: \<open>Number\<close> and \<open>parseInt\<close> on strings of decimal digits, where
  both return the number written; a password hash that is recognisably not the
  password; an email check that asks for an \<open>@\<close>.
\<close>

definition decimal :: "string \<Rightarrow> int option" where
  "decimal s =
     (if s \<noteq> [] \<and> list_all (in_range (CHR ''0'') (CHR ''9'')) s
      then Some (foldl (\<lambda>n c. 10 * n + (int (code_unit c) - 48)) 0 s)
      else None)"

definition demo_lib :: lib where
  "demo_lib =
     \<lparr>bcrypt_hash = (\<lambda>p. ''$2a$10$'' @ p),
      bcrypt_compare = (\<lambda>p h. h = ''$2a$10$'' @ p),
      jwt_sign = (\<lambda>p secret expiresIn now. ''header.'' @ jp_username p @ ''.signature''),
      jwt_verify = (\<lambda>token secret now. Inl JsonWebTokenError),
      zod_email = (\<lambda>s. CHR ''@'' \<in> set s),
      zod_url = (\<lambda>s. take 4 s = ''http''),
      zod_default_in_optional = False,
      js_Number = (\<lambda>s. case decimal s of None \<Rightarrow> JsNaN | Some n \<Rightarrow> JsInt n),
      js_parseInt = decimal,
      js_positive = (\<lambda>v. case v of JBool b \<Rightarrow> b | _ \<Rightarrow> False),
      sqlite_foreign_keys = True,
      sqlite_bind = (\<lambda>v. case v of JNull \<Rightarrow> BindNull | JStr s \<Rightarrow> BindText s
                               | _ \<Rightarrow> BindThrows),
      env_JWT_SECRET = None,
      env_JWT_EXPIRES_IN = None\<rparr>"


text \<open>
  A store with an admin and two editors, three posts of the first editor, two
  categories, and the first post in the first category.
\<close>

definition demo_user :: "int \<Rightarrow> string \<Rightarrow> user_role \<Rightarrow> user_row" where
  "demo_user i name r =
     \<lparr>user_id = i, user_username = name, user_email = name @ ''@example.org'',
      user_password = ''$2a$10$pw123456'', user_role = r,
      user_createdAt = 100, user_updatedAt = 100\<rparr>"

definition demo_post :: "int \<Rightarrow> string \<Rightarrow> string \<Rightarrow> int \<Rightarrow> post_row" where
  "demo_post i title slug t =
     \<lparr>post_id = i, post_title = title, post_slug = slug, post_content = ''some text'',
      post_contentType = Markdown, post_excerpt = None, post_status = Published,
      post_featuredImage = None, post_authorId = 2, post_createdAt = t,
      post_updatedAt = t\<rparr>"

definition demo_category :: "int \<Rightarrow> string \<Rightarrow> string \<Rightarrow> category_row" where
  "demo_category i name slug =
     \<lparr>cat_id = i, cat_name = name, cat_slug = slug, cat_description = None,
      cat_createdAt = 100, cat_updatedAt = 100\<rparr>"

definition demo_db :: database where
  "demo_db =
     \<lparr>users = [demo_user 1 ''root'' Admin, demo_user 2 ''alice'' Editor,
               demo_user 3 ''bob'' Editor],
      categories = [demo_category 1 ''News'' ''news'', demo_category 2 ''Misc'' ''misc''],
      posts = [demo_post 1 ''Hello'' ''hello'' 200, demo_post 2 ''World'' ''world'' 300,
               demo_post 3 ''Again'' ''again'' 400],
      postCategories = [\<lparr>pc_postId = 1, pc_categoryId = 1\<rparr>],
      seq_users = 3, seq_categories = 2, seq_posts = 3\<rparr>"

definition demo_caller :: "int \<Rightarrow> string \<Rightarrow> user_role \<Rightarrow> auth_user" where
  "demo_caller i name r =
     \<lparr>au_id = i, au_username = name, au_email = name @ ''@example.org'', au_role = r\<rparr>"

definition demo_request ::
  "auth_user option \<Rightarrow> string option \<Rightarrow> (string \<times> string) list \<Rightarrow> jsval \<Rightarrow> request" where
  "demo_request caller i query json =
     \<lparr>req_user = caller, req_id = i, req_query = map_of query, req_json = Inr json\<rparr>"

section \<open>Slug validation\<close>

lemma slug_class_alphabet: "slug_class c = (c \<in> set slug_alphabet)"
proof (cases c)
  case (Char b0 b1 b2 b3 b4 b5 b6 b7)
  show ?thesis
    unfolding Char slug_class_def in_range_def code_unit_def slug_alphabet_def
    by (cases b0; cases b1; cases b2; cases b3; cases b4; cases b5; cases b6; cases b7; simp)
qed

text \<open>
  C6, as amended. \<open>validateSlug\<close> returns true exactly on the non-empty strings made
  only of lowercase letters a to z, digits and hyphens: it accepts every such string and
  rejects every string that contains any other character (an uppercase letter, a space,
  any other symbol), and it rejects the empty string.
\<close>

theorem validateSlug_iff:
  "validateSlug slug = (slug \<noteq> [] \<and> set slug \<subseteq> set slug_alphabet)"
  by (auto simp: validateSlug_def slugRegex_test_def list_all_iff slug_class_alphabet)

theorem validateSlug_iff_witness:
  "validateSlug ''hello-world-2'' \<and> \<not> validateSlug ''Hello World''"
  using validateSlug_iff [of "''hello-world-2''"] validateSlug_iff [of "''Hello World''"]
  by (simp add: slug_alphabet_def)

text \<open>
  C6 as stated fails at the empty string: it consists only of characters of the slug
  alphabet (it has none), and \<open>validateSlug\<close> returns false on it.
\<close>

theorem validateSlug_empty_counterexample:
  "set ([] :: string) \<subseteq> set slug_alphabet \<and> \<not> validateSlug []"
  by (simp add: validateSlug_def slugRegex_test_def)

section \<open>Defaults applied by validation\<close>

lemmas zod_simps = z_string_def z_enum_def z_default_def z_optional_def z_nullable_def
  z_partial_default_def z_coerce_int_def z_coerce_default_def z_coerce_optional_def
  issues_def userRoleSchema_def postStatusSchema_def postContentTypeSchema_def
  z_name_def z_slug_def z_description_def z_title_def z_content_def z_excerpt_def
  truthy_def number_param_def posts_query_of_def

lemma insertUserSchema_role:
  assumes "insertUserSchema L json = Inr v" "js_prop json ''role'' = None"
  shows "iu_role v = Editor"
  using assms
  by (auto simp: insertUserSchema_def Let_def z_default_def split: jsval.splits if_splits)

lemma postsQuerySchema_page:
  assumes "postsQuerySchema i = Inr q"
  shows "(qi_page i = None \<longrightarrow> pq_page q = 1) \<and> (qi_limit i = None \<longrightarrow> pq_limit q = 10)"
  using assms
  by (auto simp: postsQuerySchema_def Let_def z_coerce_default_def split: if_splits)

lemma number_param_None: "\<not> truthy v \<Longrightarrow> number_param L v = None"
  by (simp add: number_param_def)

text \<open>
  C7. A registration body that passes \<open>insertUserSchema\<close> and has no \<open>role\<close> property
  is validated to the role editor. A listing request whose query passes
  \<open>postsQuerySchema\<close> gets page 1 when the \<open>page\<close> parameter is absent (or empty) and
  limit 10 when the \<open>limit\<close> parameter is absent (or empty).
\<close>

theorem validation_defaults:
  "(insertUserSchema L json = Inr v \<and> js_prop json ''role'' = None \<longrightarrow> iu_role v = Editor)
   \<and> (postsQuerySchema (posts_query_of L params) = Inr q \<longrightarrow>
        (\<not> truthy (params ''page'') \<longrightarrow> pq_page q = 1)
        \<and> (\<not> truthy (params ''limit'') \<longrightarrow> pq_limit q = 10))"
  using insertUserSchema_role [of L json v] postsQuerySchema_page [of "posts_query_of L params" q]
  by (auto simp: posts_query_of_def number_param_None)

theorem validation_defaults_witness:
  "\<exists>v q. insertUserSchema demo_lib
            (JObj [(''username'', JStr ''alice''), (''email'', JStr ''alice@example.org''),
                   (''password'', JStr ''pw123456'')]) = Inr v
         \<and> iu_role v = Editor
         \<and> postsQuerySchema (posts_query_of demo_lib (map_of [(''status'', ''draft'')])) = Inr q
         \<and> pq_page q = 1 \<and> pq_limit q = 10"
proof -
  let ?json = "JObj [(''username'', JStr ''alice''), (''email'', JStr ''alice@example.org''),
                     (''password'', JStr ''pw123456'')]"
  let ?params = "map_of [(''status'', ''draft'')]"
  obtain v where v: "insertUserSchema demo_lib ?json = Inr v"
    by (simp add: insertUserSchema_def demo_lib_def zod_simps)
  obtain q where q: "postsQuerySchema (posts_query_of demo_lib ?params) = Inr q"
    by (simp add: postsQuerySchema_def demo_lib_def zod_simps)
  have "js_prop ?json ''role'' = None" "\<not> truthy (?params ''page'')" "\<not> truthy (?params ''limit'')"
    by (simp_all add: truthy_def)
  with validation_defaults [of demo_lib ?json v ?params q] v q show ?thesis
    by blast
qed

section \<open>Deleting a category\<close>

lemmas response_simps = createAPIResponse_def failure_def validation_error_def
  internal_error_def internal_error_with_def invalid_slug_def succeeded_def

lemma addressed_category_unfold:
  assumes "addressed_category L db req = Some (cid, c)"
  shows "truthy (req_id req) \<and> js_parseInt L (the (req_id req)) = Some cid
         \<and> find (\<lambda>c. cat_id c = cid) (categories db) = Some c"
  using assms
  by (auto simp: addressed_category_def truthy_def split: option.splits if_splits)

lemma find_Some_mem: "find P xs = Some x \<Longrightarrow> x \<in> set xs \<and> P x"
  by (auto simp: find_Some_iff)

text \<open>
  C3. An admin deletes an existing category: when an association row names the
  category the answer is 400, a failure, and the store (the category row included) is as
  before; when none does the answer is 200, a success, and the category row is gone.
\<close>

theorem deleteCategory_guard:
  assumes "is_admin (req_user req)" and "addressed_category L db req = Some (cid, c)"
  shows "c \<in> set (categories db) \<and> cat_id c = cid
         \<and> (if list_ex (\<lambda>r. pc_categoryId r = cid) (postCategories db)
            then resp_status (fst (deleteCategory L now db req)) = 400
                 \<and> \<not> succeeded (fst (deleteCategory L now db req))
                 \<and> snd (deleteCategory L now db req) = db
            else resp_status (fst (deleteCategory L now db req)) = 200
                 \<and> succeeded (fst (deleteCategory L now db req))
                 \<and> snd (deleteCategory L now db req)
                     = db\<lparr>categories := filter (\<lambda>c. cat_id c \<noteq> cid) (categories db)\<rparr>
                 \<and> \<not> list_ex (\<lambda>c. cat_id c = cid)
                          (categories (snd (deleteCategory L now db req))))"
proof -
  note a = addressed_category_unfold [OF assms(2)]
  have mem: "c \<in> set (categories db) \<and> cat_id c = cid"
    using a find_Some_mem [of "\<lambda>c. cat_id c = cid" "categories db" c] by simp
  have cnt: "(0 < length (filter (\<lambda>r. pc_categoryId r = cid) (postCategories db)))
             = list_ex (\<lambda>r. pc_categoryId r = cid) (postCategories db)"
    by (auto simp: list_ex_iff filter_empty_conv)
  show ?thesis
    using assms(1) a mem cnt
    by (auto simp: deleteCategory_def Let_def delete_category_row_def response_simps
             list_ex_iff)
qed

lemmas demo_simps = demo_lib_def demo_db_def demo_user_def demo_post_def demo_category_def
  demo_caller_def demo_request_def decimal_def in_range_def code_unit_def

theorem deleteCategory_guard_witness:
  "resp_status (fst (deleteCategory demo_lib 500 demo_db
       (demo_request (Some (demo_caller 1 ''root'' Admin)) (Some ''1'') [] JNull))) = 400
   \<and> snd (deleteCategory demo_lib 500 demo_db
       (demo_request (Some (demo_caller 1 ''root'' Admin)) (Some ''1'') [] JNull)) = demo_db
   \<and> resp_status (fst (deleteCategory demo_lib 500 demo_db
       (demo_request (Some (demo_caller 1 ''root'' Admin)) (Some ''2'') [] JNull))) = 200
   \<and> map cat_id (categories (snd (deleteCategory demo_lib 500 demo_db
       (demo_request (Some (demo_caller 1 ''root'' Admin)) (Some ''2'') [] JNull)))) = [1]"
proof -
  let ?r1 = "demo_request (Some (demo_caller 1 ''root'' Admin)) (Some ''1'') [] JNull"
  let ?r2 = "demo_request (Some (demo_caller 1 ''root'' Admin)) (Some ''2'') [] JNull"
  have adm: "is_admin (req_user ?r1)" "is_admin (req_user ?r2)"
    by (simp_all add: is_admin_def demo_simps)
  have a1: "addressed_category demo_lib demo_db ?r1 = Some (1, demo_category 1 ''News'' ''news'')"
    by (simp add: addressed_category_def demo_simps)
  have a2: "addressed_category demo_lib demo_db ?r2 = Some (2, demo_category 2 ''Misc'' ''misc'')"
    by (simp add: addressed_category_def demo_simps)
  have e1: "list_ex (\<lambda>r. pc_categoryId r = 1) (postCategories demo_db)"
    by (simp add: demo_simps)
  have e2: "\<not> list_ex (\<lambda>r. pc_categoryId r = 2) (postCategories demo_db)"
    by (simp add: demo_simps)
  from deleteCategory_guard [OF adm(1) a1, of 500] e1
  have c1: "resp_status (fst (deleteCategory demo_lib 500 demo_db ?r1)) = 400
            \<and> snd (deleteCategory demo_lib 500 demo_db ?r1) = demo_db"
    by simp
  from deleteCategory_guard [OF adm(2) a2, of 500] e2
  have c2: "resp_status (fst (deleteCategory demo_lib 500 demo_db ?r2)) = 200
            \<and> snd (deleteCategory demo_lib 500 demo_db ?r2)
                = demo_db\<lparr>categories := filter (\<lambda>c. cat_id c \<noteq> 2) (categories demo_db)\<rparr>"
    by simp
  have "map cat_id (filter (\<lambda>c. cat_id c \<noteq> 2) (categories demo_db)) = [1]"
    by (simp add: demo_simps)
  with c1 c2 show ?thesis by simp
qed

section \<open>Responses of register and login\<close>

lemma insert_user_row_mem:
  "insert_user_row db n e p r now = Inr (u, db') \<Longrightarrow> u \<in> set (users db') \<and> user_password u = p"
  by (auto simp: insert_user_row_def Let_def split: if_splits)

lemma omit_password:
  "omit ''password'' (user_obj user)
   = [(''id'', JNum (user_id user)), (''username'', JStr (user_username user)),
      (''email'', JStr (user_email user)), (''role'', JStr (role_str (user_role user))),
      (''createdAt'', JDate (user_createdAt user)),
      (''updatedAt'', JDate (user_updatedAt user))]"
  by (simp add: omit_def user_obj_def)

lemma register_success:
  assumes "register L now db req = (r, db')" "succeeded r"
  shows "\<exists>json v user.
           req_json req = Inr json \<and> insertUserSchema L json = Inr v
           \<and> insert_user_row db (iu_username v) (iu_email v) (hashPassword L (iu_password v))
                 (iu_role v) now = Inr (user, db')
           \<and> r = createAPIResponse True ''User registered successfully''
                   (Some (JObj (omit ''password'' (user_obj user)))) None (Some 201)"
  using assms
  by (auto simp: register_def Let_def response_simps
           split: sum.splits db_error.splits prod.splits)

lemma login_success:
  assumes "login L now db req = (r, db')" "succeeded r"
  shows "\<exists>json username password user.
           req_json req = Inr json \<and> loginSchema json = Inr (username, password)
           \<and> find (\<lambda>u. user_username u = username) (users db) = Some user
           \<and> verifyPassword L password (user_password user)
           \<and> db' = db
           \<and> r = createAPIResponse True ''Login successful''
                   (Some (JObj [(''user'', JObj (omit ''password'' (user_obj user))),
                                (''token'',
                                 JStr (generateToken L now
                                         \<lparr>jp_userId = user_id user,
                                            jp_username = user_username user,
                                            jp_email = user_email user,
                                            jp_role = user_role user\<rparr>))])) None None"
  using assms
  by (auto simp: login_def Let_def response_simps
           split: sum.splits option.splits prod.splits if_splits)

text \<open>
  C9. When \<open>register\<close> answers with success, the body of the request passed
  \<open>insertUserSchema\<close>, the row just inserted into \<open>users\<close> holds the hash of the
  password, and the answer is status 201 with the body
  \<open>{success: true, message, data}\<close>, where \<open>data\<close> is that row with the
  \<open>password\<close> property removed. When \<open>login\<close> answers with success, the body of
  the request passed \<open>loginSchema\<close>, the user is the first row of \<open>users\<close> with the
  given username, the password verifies against the stored hash, the store is as
  before, and the answer is status 200 with the body \<open>{success: true, message, data}\<close>,
  where \<open>data\<close> is \<open>{user, token}\<close>: \<open>user\<close> is that row with the \<open>password\<close>
  property removed, and \<open>token\<close> is what \<open>jwt.sign\<close> returns for the claims
  userId, username, email and role of the row. In both answers the user object is
  exactly the properties id, username, email, role, createdAt and updatedAt of the row;
  the stored hash appears nowhere in the object.
\<close>

theorem responses_omit_password:
  "(register L now db req = (r, db') \<and> succeeded r \<longrightarrow>
      (\<exists>json v user.
         req_json req = Inr json \<and> insertUserSchema L json = Inr v
         \<and> insert_user_row db (iu_username v) (iu_email v) (hashPassword L (iu_password v))
               (iu_role v) now = Inr (user, db')
         \<and> user \<in> set (users db')
         \<and> user_password user = hashPassword L (iu_password v)
         \<and> r = \<lparr>resp_status = 201,
                 resp_body =
                   JObj [(''success'', JBool True),
                         (''message'', JStr ''User registered successfully''),
                         (''data'', JObj (omit ''password'' (user_obj user)))]\<rparr>
         \<and> omit ''password'' (user_obj user)
             = [(''id'', JNum (user_id user)), (''username'', JStr (user_username user)),
                (''email'', JStr (user_email user)),
                (''role'', JStr (role_str (user_role user))),
                (''createdAt'', JDate (user_createdAt user)),
                (''updatedAt'', JDate (user_updatedAt user))]))
   \<and> (login L now db req = (r, db') \<and> succeeded r \<longrightarrow>
      (\<exists>json username password user.
         req_json req = Inr json \<and> loginSchema json = Inr (username, password)
         \<and> find (\<lambda>u. user_username u = username) (users db) = Some user
         \<and> user \<in> set (users db)
         \<and> verifyPassword L password (user_password user)
         \<and> db' = db
         \<and> r = \<lparr>resp_status = 200,
                 resp_body =
                   JObj [(''success'', JBool True), (''message'', JStr ''Login successful''),
                         (''data'',
                          JObj [(''user'', JObj (omit ''password'' (user_obj user))),
                                (''token'',
                                 JStr (jwt_sign L
                                         \<lparr>jp_userId = user_id user,
                                            jp_username = user_username user,
                                            jp_email = user_email user,
                                            jp_role = user_role user\<rparr>
                                         (JWT_SECRET L) (JWT_EXPIRES_IN L) now))])]\<rparr>
         \<and> omit ''password'' (user_obj user)
             = [(''id'', JNum (user_id user)), (''username'', JStr (user_username user)),
                (''email'', JStr (user_email user)),
                (''role'', JStr (role_str (user_role user))),
                (''createdAt'', JDate (user_createdAt user)),
                (''updatedAt'', JDate (user_updatedAt user))]))"
proof (intro conjI impI)
  assume a: "register L now db req = (r, db') \<and> succeeded r"
  from register_success [of L now db req r db'] a obtain json v user where
    f: "req_json req = Inr json" "insertUserSchema L json = Inr v"
      "insert_user_row db (iu_username v) (iu_email v) (hashPassword L (iu_password v))
         (iu_role v) now = Inr (user, db')"
      "r = createAPIResponse True ''User registered successfully''
             (Some (JObj (omit ''password'' (user_obj user)))) None (Some 201)"
    by blast
  from insert_user_row_mem [OF f(3)] have
    m: "user \<in> set (users db')" "user_password user = hashPassword L (iu_password v)"
    by simp_all
  from f(4) have
    b: "r = \<lparr>resp_status = 201,
                 resp_body =
                   JObj [(''success'', JBool True),
                         (''message'', JStr ''User registered successfully''),
                         (''data'', JObj (omit ''password'' (user_obj user)))]\<rparr>"
    by (simp add: createAPIResponse_def)
  from f(1-3) m b omit_password [of user]
  show "\<exists>json v user.
         req_json req = Inr json \<and> insertUserSchema L json = Inr v
         \<and> insert_user_row db (iu_username v) (iu_email v) (hashPassword L (iu_password v))
               (iu_role v) now = Inr (user, db')
         \<and> user \<in> set (users db')
         \<and> user_password user = hashPassword L (iu_password v)
         \<and> r = \<lparr>resp_status = 201,
                 resp_body =
                   JObj [(''success'', JBool True),
                         (''message'', JStr ''User registered successfully''),
                         (''data'', JObj (omit ''password'' (user_obj user)))]\<rparr>
         \<and> omit ''password'' (user_obj user)
             = [(''id'', JNum (user_id user)), (''username'', JStr (user_username user)),
                (''email'', JStr (user_email user)),
                (''role'', JStr (role_str (user_role user))),
                (''createdAt'', JDate (user_createdAt user)),
                (''updatedAt'', JDate (user_updatedAt user))]"
    by blast
next
  assume a: "login L now db req = (r, db') \<and> succeeded r"
  from login_success [of L now db req r db'] a obtain json username password user where
    f: "req_json req = Inr json" "loginSchema json = Inr (username, password)"
      "find (\<lambda>u. user_username u = username) (users db) = Some user"
      "verifyPassword L password (user_password user)" "db' = db"
      "r = createAPIResponse True ''Login successful''
                   (Some (JObj [(''user'', JObj (omit ''password'' (user_obj user))),
                                (''token'',
                                 JStr (generateToken L now
                                         \<lparr>jp_userId = user_id user,
                                            jp_username = user_username user,
                                            jp_email = user_email user,
                                            jp_role = user_role user\<rparr>))])) None None"
    by blast
  from find_Some_mem [OF f(3)] have m: "user \<in> set (users db)"
    by simp
  from f(6) have
    b: "r = \<lparr>resp_status = 200,
                 resp_body =
                   JObj [(''success'', JBool True), (''message'', JStr ''Login successful''),
                         (''data'',
                          JObj [(''user'', JObj (omit ''password'' (user_obj user))),
                                (''token'',
                                 JStr (jwt_sign L
                                         \<lparr>jp_userId = user_id user,
                                            jp_username = user_username user,
                                            jp_email = user_email user,
                                            jp_role = user_role user\<rparr>
                                         (JWT_SECRET L) (JWT_EXPIRES_IN L) now))])]\<rparr>"
    by (simp add: createAPIResponse_def generateToken_def)
  from f(1-5) m b omit_password [of user]
  show "\<exists>json username password user.
         req_json req = Inr json \<and> loginSchema json = Inr (username, password)
         \<and> find (\<lambda>u. user_username u = username) (users db) = Some user
         \<and> user \<in> set (users db)
         \<and> verifyPassword L password (user_password user)
         \<and> db' = db
         \<and> r = \<lparr>resp_status = 200,
                 resp_body =
                   JObj [(''success'', JBool True), (''message'', JStr ''Login successful''),
                         (''data'',
                          JObj [(''user'', JObj (omit ''password'' (user_obj user))),
                                (''token'',
                                 JStr (jwt_sign L
                                         \<lparr>jp_userId = user_id user,
                                            jp_username = user_username user,
                                            jp_email = user_email user,
                                            jp_role = user_role user\<rparr>
                                         (JWT_SECRET L) (JWT_EXPIRES_IN L) now))])]\<rparr>
         \<and> omit ''password'' (user_obj user)
             = [(''id'', JNum (user_id user)), (''username'', JStr (user_username user)),
                (''email'', JStr (user_email user)),
                (''role'', JStr (role_str (user_role user))),
                (''createdAt'', JDate (user_createdAt user)),
                (''updatedAt'', JDate (user_updatedAt user))]"
    by blast
qed

theorem responses_omit_password_witness:
  "register demo_lib 500 demo_db
       (demo_request None None []
          (JObj [(''username'', JStr ''carol''), (''email'', JStr ''carol@example.org''),
                 (''password'', JStr ''pw123456'')]))
     = (\<lparr>resp_status = 201,
          resp_body =
            JObj [(''success'', JBool True),
                  (''message'', JStr ''User registered successfully''),
                  (''data'',
                   JObj [(''id'', JNum 4), (''username'', JStr ''carol''),
                         (''email'', JStr ''carol@example.org''), (''role'', JStr ''editor''),
                         (''createdAt'', JDate 500), (''updatedAt'', JDate 500)])]\<rparr>,
        demo_db\<lparr>users := users demo_db @ [
           \<lparr>user_id = 4, user_username = ''carol'', user_email = ''carol@example.org'',
            user_password = ''$2a$10$pw123456'', user_role = Editor,
            user_createdAt = 500, user_updatedAt = 500\<rparr>],
          seq_users := 4\<rparr>)
   \<and> login demo_lib 500 demo_db
       (demo_request None None []
          (JObj [(''username'', JStr ''alice''), (''password'', JStr ''pw123456'')]))
     = (\<lparr>resp_status = 200,
          resp_body =
            JObj [(''success'', JBool True), (''message'', JStr ''Login successful''),
                  (''data'',
                   JObj [(''user'',
                          JObj [(''id'', JNum 2), (''username'', JStr ''alice''),
                                (''email'', JStr ''alice@example.org''),
                                (''role'', JStr ''editor''),
                                (''createdAt'', JDate 100), (''updatedAt'', JDate 100)]),
                         (''token'', JStr ''header.alice.signature'')])]\<rparr>,
        demo_db)"
proof -
  let ?rr = "demo_request None None []
          (JObj [(''username'', JStr ''carol''), (''email'', JStr ''carol@example.org''),
                 (''password'', JStr ''pw123456'')])"
  let ?rl = "demo_request None None []
          (JObj [(''username'', JStr ''alice''), (''password'', JStr ''pw123456'')])"
  let ?carol = "\<lparr>user_id = 4, user_username = ''carol'', user_email = ''carol@example.org'',
            user_password = ''$2a$10$pw123456'', user_role = Editor,
            user_createdAt = 500, user_updatedAt = 500\<rparr>"
  let ?db' = "demo_db\<lparr>users := users demo_db @ [?carol], seq_users := 4\<rparr>"
  have jr: "req_json ?rr
            = Inr (JObj [(''username'', JStr ''carol''), (''email'', JStr ''carol@example.org''),
                         (''password'', JStr ''pw123456'')])"
    and jl: "req_json ?rl
            = Inr (JObj [(''username'', JStr ''alice''), (''password'', JStr ''pw123456'')])"
    by (simp_all add: demo_request_def)
  have vr: "insertUserSchema demo_lib
              (JObj [(''username'', JStr ''carol''), (''email'', JStr ''carol@example.org''),
                     (''password'', JStr ''pw123456'')])
            = Inr \<lparr>iu_username = ''carol'', iu_email = ''carol@example.org'',
                   iu_password = ''pw123456'', iu_role = Editor\<rparr>"
    by (simp add: insertUserSchema_def Let_def zod_simps demo_lib_def)
  have vl: "loginSchema (JObj [(''username'', JStr ''alice''), (''password'', JStr ''pw123456'')])
            = Inr (''alice'', ''pw123456'')"
    by (simp add: loginSchema_def Let_def zod_simps)
  have ir: "insert_user_row demo_db ''carol'' ''carol@example.org''
              (hashPassword demo_lib ''pw123456'') Editor 500 = Inr (?carol, ?db')"
    by (simp add: insert_user_row_def hashPassword_def next_id_def Let_def demo_simps
          list_ex_iff)
  have s1: "succeeded (fst (register demo_lib 500 demo_db ?rr))"
    by (simp add: register_def jr vr ir Let_def response_simps)
  have s2: "succeeded (fst (login demo_lib 500 demo_db ?rl))"
    by (simp add: login_def jl vl verifyPassword_def generateToken_def Let_def
          response_simps demo_simps)
  have e1: "snd (register demo_lib 500 demo_db ?rr) = ?db'"
    by (simp add: register_def jr vr ir Let_def)
  have t: "jwt_sign demo_lib
             \<lparr>jp_userId = 2, jp_username = ''alice'', jp_email = ''alice@example.org'',
                jp_role = Editor\<rparr> (JWT_SECRET demo_lib) (JWT_EXPIRES_IN demo_lib) 500
           = ''header.alice.signature''"
    by (simp add: demo_lib_def)
  from responses_omit_password [of demo_lib 500 demo_db ?rr
         "fst (register demo_lib 500 demo_db ?rr)" "snd (register demo_lib 500 demo_db ?rr)"]
       s1 jr vr ir e1
  have c1: "fst (register demo_lib 500 demo_db ?rr)
     = \<lparr>resp_status = 201,
          resp_body =
            JObj [(''success'', JBool True),
                  (''message'', JStr ''User registered successfully''),
                  (''data'',
                   JObj [(''id'', JNum 4), (''username'', JStr ''carol''),
                         (''email'', JStr ''carol@example.org''), (''role'', JStr ''editor''),
                         (''createdAt'', JDate 500), (''updatedAt'', JDate 500)])]\<rparr>"
    by (auto simp: role_str_def prod_eq_iff)
  have fl: "find (\<lambda>u. user_username u = ''alice'') (users demo_db)
            = Some (demo_user 2 ''alice'' Editor)"
    by (simp add: demo_db_def demo_user_def)
  from responses_omit_password [of demo_lib 500 demo_db ?rl
         "fst (login demo_lib 500 demo_db ?rl)" "snd (login demo_lib 500 demo_db ?rl)"]
       s2 jl vl fl t
  have c2: "login demo_lib 500 demo_db ?rl
     = (\<lparr>resp_status = 200,
          resp_body =
            JObj [(''success'', JBool True), (''message'', JStr ''Login successful''),
                  (''data'',
                   JObj [(''user'',
                          JObj [(''id'', JNum 2), (''username'', JStr ''alice''),
                                (''email'', JStr ''alice@example.org''),
                                (''role'', JStr ''editor''),
                                (''createdAt'', JDate 100), (''updatedAt'', JDate 100)]),
                         (''token'', JStr ''header.alice.signature'')])]\<rparr>,
        demo_db)"
    by (auto simp: role_str_def demo_user_def prod_eq_iff)
  from c1 e1 c2 show ?thesis by (simp add: prod_eq_iff)
qed

section \<open>Association rows and the posts they name\<close>

lemma associations_have_posts_iff:
  "associations_have_posts db
     = (\<forall>r \<in> set (postCategories db). pc_postId r \<in> post_id ` set (posts db))"
  unfolding associations_have_posts_def list_all_iff list_ex_iff image_iff
  by (metis (no_types, lifting))

lemma inv_frame:
  assumes "post_id ` set (posts db') = post_id ` set (posts db)"
    and "postCategories db' = postCategories db"
    and "associations_have_posts db"
  shows "associations_have_posts db'"
  using assms by (simp add: associations_have_posts_iff)

lemma register_frame:
  "posts (snd (register L now db req)) = posts db
   \<and> postCategories (snd (register L now db req)) = postCategories db"
  by (auto simp: register_def Let_def insert_user_row_def
           split: sum.splits db_error.splits prod.splits if_splits)

lemma login_frame: "snd (login L now db req) = db"
  by (auto simp: login_def Let_def split: sum.splits option.splits prod.splits)

lemma changePassword_frame:
  "posts (snd (changePassword L now db req)) = posts db
   \<and> postCategories (snd (changePassword L now db req)) = postCategories db"
  by (auto simp: changePassword_def update_user_password_def
           split: sum.splits option.splits prod.splits)

lemma createCategory_frame:
  "posts (snd (createCategory L now db req)) = posts db
   \<and> postCategories (snd (createCategory L now db req)) = postCategories db"
  by (auto simp: createCategory_def insert_category_row_def Let_def
           split: sum.splits option.splits prod.splits if_splits)

lemma updateCategory_frame:
  "posts (snd (updateCategory L now db req)) = posts db
   \<and> postCategories (snd (updateCategory L now db req)) = postCategories db"
  by (auto simp: updateCategory_def update_category_row_def Let_def
           split: sum.splits option.splits prod.splits if_splits)

lemma deleteCategory_frame:
  "posts (snd (deleteCategory L now db req)) = posts db
   \<and> postCategories (snd (deleteCategory L now db req)) = postCategories db"
  by (auto simp: deleteCategory_def delete_category_row_def Let_def
           split: sum.splits option.splits prod.splits if_splits)


lemma insert_post_row_Inr:
  assumes "insert_post_row L db d a now = Inr (post, db1)"
  shows "posts db1 = posts db @ [post] \<and> postCategories db1 = postCategories db"
  using assms by (auto simp: insert_post_row_def Let_def split: if_splits)

lemma insert_post_categories_Inr:
  assumes "insert_post_categories L db rows = Inr db2"
  shows "posts db2 = posts db \<and> postCategories db2 = postCategories db @ rows"
  using assms by (auto simp: insert_post_categories_def split: if_splits)

lemma insert_categories_Inr:
  assumes "insert_categories L db pid vs = Inr db2"
  shows "\<exists>ids. insert_post_categories L db
                 (map (\<lambda>categoryId. \<lparr>pc_postId = pid, pc_categoryId = categoryId\<rparr>) ids)
               = Inr db2"
  using assms by (auto simp: insert_categories_def Let_def split: if_splits)

lemma assign_categories_Inr:
  assumes "assign_categories L db pid v = Inr db2"
  shows "db2 = db
         \<or> (\<exists>ids. insert_post_categories L db
                     (map (\<lambda>categoryId. \<lparr>pc_postId = pid, pc_categoryId = categoryId\<rparr>) ids)
                   = Inr db2)"
  using assms
  by (auto simp: assign_categories_def split: if_splits jsval.splits sum.splits
        dest: insert_categories_Inr)

lemma replace_categories_Inr:
  assumes "replace_categories L db1 pid c = Inr db3"
  shows "db3 = db1 \<or> db3 = delete_post_categories db1 pid
         \<or> (\<exists>ids. insert_post_categories L (delete_post_categories db1 pid)
                     (map (\<lambda>categoryId. \<lparr>pc_postId = pid, pc_categoryId = categoryId\<rparr>) ids)
                   = Inr db3)"
  using assms
  by (auto simp: replace_categories_def Let_def split: if_splits sum.splits
        dest: assign_categories_Inr)

lemma replace_categories_Inl:
  assumes "replace_categories L db1 pid c = Inl (msg, db2)"
  shows "db2 = delete_post_categories db1 pid"
  using assms
  by (auto simp: replace_categories_def Let_def split: if_splits sum.splits)

lemma replace_categories_frame:
  assumes "replace_categories L db1 pid c = Inr db3"
  shows "posts db3 = posts db1 \<and> users db3 = users db1 \<and> categories db3 = categories db1"
  using replace_categories_Inr [OF assms]
  by (auto simp: delete_post_categories_def insert_post_categories_def split: if_splits)

lemma update_post_row_Inr:
  assumes "update_post_row db pid d now = Inr db1"
  shows "posts db1 = map (\<lambda>p. if post_id p = pid then set_post d now p else p) (posts db)
         \<and> postCategories db1 = postCategories db"
  using assms by (auto simp: update_post_row_def split: if_splits)

lemma set_post_id: "post_id (set_post d now p) = post_id p"
  by (simp add: set_post_def)

lemma update_post_row_ids:
  assumes "update_post_row db pid d now = Inr db1"
  shows "map post_id (posts db1) = map post_id (posts db)"
  using update_post_row_Inr [OF assms] by (auto simp: set_post_id)

lemma inv_grow:
  assumes "associations_have_posts db"
    and "post_id ` set (posts db) \<subseteq> post_id ` set (posts db')"
    and "\<forall>r \<in> set (postCategories db').
           r \<in> set (postCategories db) \<or> pc_postId r \<in> post_id ` set (posts db')"
  shows "associations_have_posts db'"
  using assms unfolding associations_have_posts_iff by blast

lemma createPost_store:
  "snd (createPost L now db req) = db
   \<or> (\<exists>d a post db1.
         insert_post_row L db d a now = Inr (post, db1)
         \<and> (snd (createPost L now db req) = db1
            \<or> (\<exists>ids. insert_post_categories L db1
                        (map (\<lambda>categoryId.
                                \<lparr>pc_postId = post_id post, pc_categoryId = categoryId\<rparr>) ids)
                      = Inr (snd (createPost L now db req)))))"
proof -
  have "snd (createPost L now db req) = db
   \<or> (\<exists>d a post db1 v.
         insert_post_row L db d a now = Inr (post, db1)
         \<and> (snd (createPost L now db req) = db1
            \<or> assign_categories L db1 (post_id post) v = Inr (snd (createPost L now db req))))"
    by (auto simp: createPost_def Let_def
          split: option.splits sum.splits prod.splits bool.splits)
  then show ?thesis
    using assign_categories_Inr by blast
qed

lemma createPost_inv:
  assumes "associations_have_posts db"
  shows "associations_have_posts (snd (createPost L now db req))"
proof -
  from createPost_store [of L now db req]
  consider "snd (createPost L now db req) = db"
    | d a post db1 where "insert_post_row L db d a now = Inr (post, db1)"
        "snd (createPost L now db req) = db1
            \<or> (\<exists>ids. insert_post_categories L db1
                        (map (\<lambda>categoryId.
                                \<lparr>pc_postId = post_id post, pc_categoryId = categoryId\<rparr>) ids)
                      = Inr (snd (createPost L now db req)))"
    by blast
  then show ?thesis
  proof cases
    case 1
    with assms show ?thesis by simp
  next
    case 2
    note r = insert_post_row_Inr [OF 2(1)]
    have i1: "associations_have_posts db1"
      using assms r by (auto simp: associations_have_posts_iff)
    from 2(2) show ?thesis
    proof (elim disjE exE)
      assume "snd (createPost L now db req) = db1"
      with i1 show ?thesis by simp
    next
      fix ids
      assume "insert_post_categories L db1
                (map (\<lambda>categoryId. \<lparr>pc_postId = post_id post, pc_categoryId = categoryId\<rparr>)
                   ids)
              = Inr (snd (createPost L now db req))"
      from insert_post_categories_Inr [OF this] i1 r show ?thesis
        by (auto simp: associations_have_posts_iff)
    qed
  qed
qed


lemma delete_post_categories_simps:
  "posts (delete_post_categories db pid) = posts db"
  "postCategories (delete_post_categories db pid)
     = filter (\<lambda>r. pc_postId r \<noteq> pid) (postCategories db)"
  by (simp_all add: delete_post_categories_def)

lemma delete_post_row_Inr:
  assumes "delete_post_row L db pid = Inr db2"
  shows "posts db2 = filter (\<lambda>p. post_id p \<noteq> pid) (posts db)
         \<and> postCategories db2 = postCategories db"
  using assms by (auto simp: delete_post_row_def split: if_splits)

lemma find_post_id: "find (\<lambda>p. post_id p = pid) ps = Some p \<Longrightarrow> pid \<in> post_id ` set ps"
  by (auto dest: find_Some_mem)


lemma updatePost_store_aux:
  "snd (updatePost L now db req) = db
   \<or> (find (\<lambda>p. post_id p = the (js_parseInt L (the (req_id req)))) (posts db) \<noteq> None
      \<and> update_post_row db (the (js_parseInt L (the (req_id req))))
            (projr (postUpdateSchema L (projr (req_json req)))) now
          = Inr (projr (update_post_row db (the (js_parseInt L (the (req_id req))))
                   (projr (postUpdateSchema L (projr (req_json req)))) now))
      \<and> snd (updatePost L now db req)
          = (case replace_categories L
                    (projr (update_post_row db (the (js_parseInt L (the (req_id req))))
                       (projr (postUpdateSchema L (projr (req_json req)))) now))
                    (the (js_parseInt L (the (req_id req))))
                    (js_prop (projr (req_json req)) ''categoryIds'') of
               Inl x \<Rightarrow> snd x | Inr db3 \<Rightarrow> db3))"
  by (auto simp: updatePost_def Let_def
          split: option.splits sum.splits prod.splits if_splits)

lemma updatePost_store:
  "snd (updatePost L now db req) = db
   \<or> (\<exists>pid p d db1.
         find (\<lambda>p. post_id p = pid) (posts db) = Some p
         \<and> update_post_row db pid d now = Inr db1
         \<and> (snd (updatePost L now db req) = db1
            \<or> snd (updatePost L now db req) = delete_post_categories db1 pid
            \<or> (\<exists>ids. insert_post_categories L (delete_post_categories db1 pid)
                        (map (\<lambda>categoryId. \<lparr>pc_postId = pid, pc_categoryId = categoryId\<rparr>) ids)
                      = Inr (snd (updatePost L now db req)))))"
proof -
  define pid where "pid = the (js_parseInt L (the (req_id req)))"
  define d where "d = projr (postUpdateSchema L (projr (req_json req)))"
  define db1 where "db1 = projr (update_post_row db pid d now)"
  define c where "c = js_prop (projr (req_json req)) ''categoryIds''"
  from updatePost_store_aux [of L now db req]
  consider "snd (updatePost L now db req) = db"
    | p where "find (\<lambda>p. post_id p = pid) (posts db) = Some p"
        "update_post_row db pid d now = Inr db1"
        "snd (updatePost L now db req)
             = (case replace_categories L db1 pid c of
                  Inl x \<Rightarrow> snd x | Inr db3 \<Rightarrow> db3)"
    unfolding pid_def d_def db1_def c_def by blast
  then show ?thesis
  proof cases
    case 1
    then show ?thesis by simp
  next
    case 2
    have "snd (updatePost L now db req) = db1
            \<or> snd (updatePost L now db req) = delete_post_categories db1 pid
            \<or> (\<exists>ids. insert_post_categories L (delete_post_categories db1 pid)
                        (map (\<lambda>categoryId. \<lparr>pc_postId = pid, pc_categoryId = categoryId\<rparr>) ids)
                      = Inr (snd (updatePost L now db req)))"
    proof (cases "replace_categories L db1 pid c")
      case (Inl x)
      then have "replace_categories L db1 pid c = Inl (fst x, snd x)" by simp
      from replace_categories_Inl [OF this] 2(3) Inl show ?thesis by simp
    next
      case (Inr db3)
      from replace_categories_Inr [OF Inr] 2(3) Inr show ?thesis by auto
    qed
    with 2(1,2) show ?thesis by blast
  qed
qed

lemma updatePost_inv:
  assumes "associations_have_posts db"
  shows "associations_have_posts (snd (updatePost L now db req))"
proof -
  from updatePost_store [of L now db req]
  consider "snd (updatePost L now db req) = db"
    | pid p d db1 where "find (\<lambda>p. post_id p = pid) (posts db) = Some p"
        "update_post_row db pid d now = Inr db1"
        "snd (updatePost L now db req) = db1
            \<or> snd (updatePost L now db req) = delete_post_categories db1 pid
            \<or> (\<exists>ids. insert_post_categories L (delete_post_categories db1 pid)
                        (map (\<lambda>categoryId. \<lparr>pc_postId = pid, pc_categoryId = categoryId\<rparr>) ids)
                      = Inr (snd (updatePost L now db req)))"
    by blast
  then show ?thesis
  proof cases
    case 1
    with assms show ?thesis by simp
  next
    case 2
    have ids: "post_id ` set (posts db1) = post_id ` set (posts db)"
      using update_post_row_ids [OF 2(2)] by (metis set_map)
    have pcs: "postCategories db1 = postCategories db"
      using update_post_row_Inr [OF 2(2)] by simp
    have pid: "pid \<in> post_id ` set (posts db)"
      using find_post_id [OF 2(1)] .
    have i1: "associations_have_posts db1"
      using inv_frame [OF ids pcs assms] .
    from 2(3) show ?thesis
    proof (elim disjE exE)
      assume "snd (updatePost L now db req) = db1"
      with i1 show ?thesis by simp
    next
      assume "snd (updatePost L now db req) = delete_post_categories db1 pid"
      with i1 show ?thesis
        by (auto simp: associations_have_posts_iff delete_post_categories_simps)
    next
      fix ids
      assume "insert_post_categories L (delete_post_categories db1 pid)
                (map (\<lambda>categoryId. \<lparr>pc_postId = pid, pc_categoryId = categoryId\<rparr>) ids)
              = Inr (snd (updatePost L now db req))"
      from insert_post_categories_Inr [OF this] i1 pid ids show ?thesis
        by (auto simp: associations_have_posts_iff delete_post_categories_simps)
    qed
  qed
qed

lemma deletePost_inv:
  assumes "associations_have_posts db"
  shows "associations_have_posts (snd (deletePost L now db req))"
proof -
  have "snd (deletePost L now db req) = db
        \<or> (\<exists>pid. snd (deletePost L now db req) = delete_post_categories db pid
              \<or> delete_post_row L (delete_post_categories db pid) pid
                  = Inr (snd (deletePost L now db req)))"
    by (auto simp: deletePost_def Let_def
          split: option.splits sum.splits prod.splits if_splits)
  then show ?thesis
  proof (elim disjE exE)
    assume "snd (deletePost L now db req) = db"
    with assms show ?thesis by simp
  next
    fix pid assume "snd (deletePost L now db req) = delete_post_categories db pid"
    with assms show ?thesis
      by (auto simp: associations_have_posts_iff delete_post_categories_simps)
  next
    fix pid
    assume "delete_post_row L (delete_post_categories db pid) pid
              = Inr (snd (deletePost L now db req))"
    from delete_post_row_Inr [OF this] assms show ?thesis
      by (auto simp: associations_have_posts_iff delete_post_categories_simps)
  qed
qed


lemma addressed_post_unfold:
  "addressed_post L db req = Some (pid, p)
     = (truthy (req_id req) \<and> js_parseInt L (the (req_id req)) = Some pid
        \<and> find (\<lambda>p. post_id p = pid) (posts db) = Some p)"
  by (auto simp: addressed_post_def truthy_def split: option.splits if_splits)

lemma deletePost_success:
  assumes "deletePost L now db req = (r, db')" "succeeded r"
  shows "\<exists>pid p. addressed_post L db req = Some (pid, p)
           \<and> delete_post_row L (delete_post_categories db pid) pid = Inr db'"
  using assms
  by (auto simp: deletePost_def Let_def response_simps addressed_post_unfold
        split: option.splits sum.splits prod.splits if_splits)

lemma deleted_post_unreferenced:
  assumes "delete_post_row L (delete_post_categories db pid) pid = Inr db'"
  shows "\<not> list_ex (\<lambda>row. pc_postId row = pid) (postCategories db')
         \<and> \<not> list_ex (\<lambda>q. post_id q = pid) (posts db')"
  using delete_post_row_Inr [OF assms]
  by (auto simp: delete_post_categories_simps list_ex_iff)

lemma perform_inv:
  assumes "associations_have_posts db"
  shows "associations_have_posts (snd (perform L now op db req))"
proof (cases op)
  case Register
  then show ?thesis using assms register_frame [of L now db req]
    by (simp add: perform_def inv_frame)
next
  case Login
  then show ?thesis using assms by (simp add: perform_def login_frame)
next
  case ChangePassword
  then show ?thesis using assms changePassword_frame [of L now db req]
    by (simp add: perform_def inv_frame)
next
  case CreatePost
  then show ?thesis using assms by (simp add: perform_def createPost_inv)
next
  case UpdatePost
  then show ?thesis using assms by (simp add: perform_def updatePost_inv)
next
  case DeletePost
  then show ?thesis using assms by (simp add: perform_def deletePost_inv)
next
  case GetPosts
  then show ?thesis using assms by (simp add: perform_def)
next
  case CreateCategory
  then show ?thesis using assms createCategory_frame [of L now db req]
    by (simp add: perform_def inv_frame)
next
  case UpdateCategory
  then show ?thesis using assms updateCategory_frame [of L now db req]
    by (simp add: perform_def inv_frame)
next
  case DeleteCategory
  then show ?thesis using assms deleteCategory_frame [of L now db req]
    by (simp add: perform_def inv_frame)
qed

text \<open>
  C8. When \<open>deletePost\<close> answers with success, the store after it is the store with
  the association rows of the post deleted first and the post row deleted second; no
  association row names the deleted post, and no post row has its id. Every operation of
  the API, whatever its answer, keeps the invariant that each association row names an
  existing post.
\<close>

theorem deletePost_cascade_and_invariant:
  "(deletePost L now db req = (r, db') \<and> succeeded r \<longrightarrow>
      (\<exists>pid p. addressed_post L db req = Some (pid, p)
         \<and> delete_post_row L (delete_post_categories db pid) pid = Inr db'
         \<and> \<not> list_ex (\<lambda>row. pc_postId row = pid) (postCategories db')
         \<and> \<not> list_ex (\<lambda>q. post_id q = pid) (posts db')))
   \<and> (associations_have_posts db \<longrightarrow>
        associations_have_posts (snd (perform L now op db req)))"
  using deletePost_success [of L now db req r db'] deleted_post_unreferenced [of L db _ db']
    perform_inv [of db L now op req]
  by blast

theorem deletePost_cascade_and_invariant_witness:
  "succeeded (fst (deletePost demo_lib 500 demo_db
       (demo_request (Some (demo_caller 2 ''alice'' Editor)) (Some ''1'') [] JNull)))
   \<and> postCategories (snd (deletePost demo_lib 500 demo_db
       (demo_request (Some (demo_caller 2 ''alice'' Editor)) (Some ''1'') [] JNull))) = []
   \<and> map post_id (posts (snd (deletePost demo_lib 500 demo_db
       (demo_request (Some (demo_caller 2 ''alice'' Editor)) (Some ''1'') [] JNull)))) = [2, 3]
   \<and> associations_have_posts demo_db
   \<and> associations_have_posts (snd (perform demo_lib 500 DeletePost demo_db
       (demo_request (Some (demo_caller 2 ''alice'' Editor)) (Some ''1'') [] JNull)))"
proof -
  let ?req = "demo_request (Some (demo_caller 2 ''alice'' Editor)) (Some ''1'') [] JNull"
  have s: "succeeded (fst (deletePost demo_lib 500 demo_db ?req))"
    by (simp add: deletePost_def delete_post_row_def delete_post_categories_def truthy_def
          Let_def response_simps demo_simps)
  have a: "addressed_post demo_lib demo_db ?req = Some (1, demo_post 1 ''Hello'' ''hello'' 200)"
    by (simp add: addressed_post_def demo_simps)
  have i: "associations_have_posts demo_db"
    by (simp add: associations_have_posts_def demo_simps)
  from deletePost_cascade_and_invariant [of demo_lib 500 demo_db ?req
         "fst (deletePost demo_lib 500 demo_db ?req)" "snd (deletePost demo_lib 500 demo_db ?req)"
         DeletePost] s a i
  have c: "delete_post_row demo_lib (delete_post_categories demo_db 1) 1
             = Inr (snd (deletePost demo_lib 500 demo_db ?req))"
     and j: "associations_have_posts (snd (perform demo_lib 500 DeletePost demo_db ?req))"
    by auto
  have "delete_post_row demo_lib (delete_post_categories demo_db 1) 1
          = Inr (demo_db\<lparr>postCategories := [], posts := [demo_post 2 ''World'' ''world'' 300,
                   demo_post 3 ''Again'' ''again'' 400]\<rparr>)"
    by (simp add: delete_post_row_def delete_post_categories_def demo_simps)
  with c have "snd (deletePost demo_lib 500 demo_db ?req)
      = demo_db\<lparr>postCategories := [], posts := [demo_post 2 ''World'' ''world'' 300,
                   demo_post 3 ''Again'' ''again'' 400]\<rparr>"
    by simp
  then have "postCategories (snd (deletePost demo_lib 500 demo_db ?req)) = []
       \<and> map post_id (posts (snd (deletePost demo_lib 500 demo_db ?req))) = [2, 3]"
    by (simp add: demo_post_def)
  with s i j show ?thesis by simp
qed

section \<open>What an update of a post writes\<close>


lemma find_map_update:
  assumes "find (\<lambda>p. post_id p = pid) ps = Some p"
  shows "find (\<lambda>p. post_id p = pid) (map (\<lambda>p. if post_id p = pid then set_post d now p else p) ps)
         = Some (set_post d now p)"
  using assms by (induction ps) (auto simp: set_post_id split: if_splits)










section \<open>Who may update or delete a post\<close>

lemma postUpdateSchema_slug:
  assumes "postUpdateSchema L json = Inr d" "pu_slug d = Some s"
  shows "validateSlug s \<and> s \<noteq> []"
  using assms
  by (auto simp: postUpdateSchema_def Let_def z_optional_def z_slug_def z_string_def
        validateSlug_def slugRegex_test_def
        split: jsval.splits if_splits option.splits)

lemma deletePost_forbidden:
  assumes "req_user req = Some caller" "addressed_post L db req = Some (pid, p)"
    "\<not> owner_or_admin caller p"
  shows "deletePost L now db req = (failure 403 ''You can only delete your own posts'', db)"
  using assms
  by (auto simp: deletePost_def addressed_post_unfold owner_or_admin_def)

lemma deletePost_allowed:
  assumes "req_user req = Some caller" "addressed_post L db req = Some (pid, p)"
    "owner_or_admin caller p"
  shows "\<exists>db'. delete_post_row L (delete_post_categories db pid) pid = Inr db'
           \<and> deletePost L now db req
               = (createAPIResponse True ''Post deleted successfully'' None None None, db')"
  using assms
  by (auto simp: deletePost_def addressed_post_unfold owner_or_admin_def Let_def
        delete_post_row_def delete_post_categories_def list_ex_iff)

lemma updatePost_forbidden:
  assumes "req_user req = Some caller" "addressed_post L db req = Some (pid, p)"
    "req_json req = Inr json" "postUpdateSchema L json = Inr d"
    "\<not> owner_or_admin caller p"
  shows "updatePost L now db req = (failure 403 ''You can only edit your own posts'', db)"
proof -
  have "\<not> (truthy (pu_slug d) \<and> \<not> validateSlug (the (pu_slug d)))"
    using postUpdateSchema_slug [OF assms(4)] by (auto simp: truthy_def split: option.splits)
  with assms show ?thesis
    by (auto simp: updatePost_def addressed_post_unfold owner_or_admin_def)
qed

lemma slug_taken_iff:
  assumes "postUpdateSchema L json = Inr d"
  shows "slug_taken db d p
         = (truthy (pu_slug d) \<and> the (pu_slug d) \<noteq> post_slug p
            \<and> find (\<lambda>q. Some (post_slug q) = pu_slug d) (posts db) \<noteq> None)"
proof (cases "pu_slug d")
  case None
  then show ?thesis by (simp add: slug_taken_def truthy_def)
next
  case (Some s)
  with postUpdateSchema_slug [OF assms Some] show ?thesis
    by (auto simp: slug_taken_def truthy_def list_ex_iff find_None_iff)
qed

lemma updatePost_conflict:
  assumes "req_user req = Some caller" "addressed_post L db req = Some (pid, p)"
    "req_json req = Inr json" "postUpdateSchema L json = Inr d"
    "owner_or_admin caller p" "slug_taken db d p"
  shows "updatePost L now db req = (failure 409 ''Post slug already exists'', db)"
proof -
  have v: "\<not> (truthy (pu_slug d) \<and> \<not> validateSlug (the (pu_slug d)))"
    using postUpdateSchema_slug [OF assms(4)] by (auto simp: truthy_def split: option.splits)
  from assms(6) have "truthy (pu_slug d) \<and> the (pu_slug d) \<noteq> post_slug p
            \<and> find (\<lambda>q. Some (post_slug q) = pu_slug d) (posts db) \<noteq> None"
    using slug_taken_iff [OF assms(4)] by simp
  with assms(1-5) v show ?thesis
    by (auto simp: updatePost_def addressed_post_unfold owner_or_admin_def)
qed

lemma update_post_row_ok:
  assumes "find (\<lambda>q. post_id q = pid) (posts db) = Some p"
    "postUpdateSchema L json = Inr d" "\<not> slug_taken db d p"
    "distinct (map post_slug (posts db))"
  shows "update_post_row db pid d now
         = Inr (db\<lparr>posts := map (\<lambda>q. if post_id q = pid then set_post d now q else q)
                               (posts db)\<rparr>)"
proof -
  have "\<not> list_ex (\<lambda>q. post_id q \<noteq> pid \<and> Some (post_slug q) = pu_slug d) (posts db)"
  proof
    assume "list_ex (\<lambda>q. post_id q \<noteq> pid \<and> Some (post_slug q) = pu_slug d) (posts db)"
    then obtain q where q: "q \<in> set (posts db)" "post_id q \<noteq> pid"
      "pu_slug d = Some (post_slug q)"
      by (auto simp: list_ex_iff)
    from assms(1) have p: "p \<in> set (posts db)" "post_id p = pid"
      using find_Some_mem [of "\<lambda>q. post_id q = pid" "posts db" p] by auto
    from assms(3) q have "post_slug q = post_slug p"
      by (auto simp: slug_taken_def list_ex_iff)
    with assms(4) q(1) p(1) have "q = p"
      by (meson distinct_map inj_onD)
    with q(2) p(2) show False by simp
  qed
  then show ?thesis by (simp add: update_post_row_def)
qed

lemma updatePost_allowed:
  assumes "req_user req = Some caller" "addressed_post L db req = Some (pid, p)"
    "req_json req = Inr json" "postUpdateSchema L json = Inr d"
    "owner_or_admin caller p" "\<not> slug_taken db d p"
    "distinct (map post_slug (posts db))"
  shows "find (\<lambda>q. post_id q = pid) (posts (snd (updatePost L now db req)))
           = Some (set_post d now p)
         \<and> (resp_status (fst (updatePost L now db req)) = 200
            \<or> resp_status (fst (updatePost L now db req)) = 500)"
proof -
  have v: "\<not> (truthy (pu_slug d) \<and> \<not> validateSlug (the (pu_slug d)))"
    using postUpdateSchema_slug [OF assms(4)] by (auto simp: truthy_def split: option.splits)
  have f: "find (\<lambda>q. post_id q = pid) (posts db) = Some p"
    using assms(2) by (simp add: addressed_post_unfold)
  have nt: "\<not> (truthy (pu_slug d) \<and> the (pu_slug d) \<noteq> post_slug p
            \<and> find (\<lambda>q. Some (post_slug q) = pu_slug d) (posts db) \<noteq> None)"
    using assms(6) slug_taken_iff [OF assms(4)] by simp
  note u = update_post_row_ok [OF f assms(4) assms(6) assms(7), of now]
  have f': "find (\<lambda>q. post_id q = pid)
              (map (\<lambda>q. if post_id q = pid then set_post d now q else q) (posts db))
            = Some (set_post d now p)"
    using find_map_update [OF f] .
  let ?db1 = "db\<lparr>posts := map (\<lambda>q. if post_id q = pid then set_post d now q else q)
                               (posts db)\<rparr>"
  have e: "updatePost L now db req
           = (case replace_categories L ?db1 pid (js_prop json ''categoryIds'') of
                Inl (msg, db2) \<Rightarrow> (internal_error_with msg, db2)
              | Inr db3 \<Rightarrow> (post_updated db3 pid, db3))"
    using assms(1-5) v nt u
    by (auto simp: updatePost_def addressed_post_unfold owner_or_admin_def)
  show ?thesis
  proof (cases "replace_categories L ?db1 pid (js_prop json ''categoryIds'')")
    case (Inl x)
    then have "replace_categories L ?db1 pid (js_prop json ''categoryIds'')
               = Inl (fst x, snd x)"
      by simp
    from replace_categories_Inl [OF this] have "posts (snd x) = posts ?db1"
      by (simp add: delete_post_categories_def)
    with e Inl f' show ?thesis
      by (simp add: response_simps split: prod.splits)
  next
    case (Inr db3)
    from replace_categories_frame [OF Inr] have "posts db3 = posts ?db1"
      by simp
    with e Inr f' show ?thesis
      by (simp add: post_updated_def response_simps)
  qed
qed


lemma updatePost_passes:
  assumes "req_user req = Some caller" "addressed_post L db req = Some (pid, p)"
    "req_json req = Inr json" "postUpdateSchema L json = Inr d"
    "owner_or_admin caller p"
  shows "resp_status (fst (updatePost L now db req)) \<in> {200, 409, 500}"
proof -
  have v: "\<not> (truthy (pu_slug d) \<and> \<not> validateSlug (the (pu_slug d)))"
    using postUpdateSchema_slug [OF assms(4)] by (auto simp: truthy_def split: option.splits)
  show ?thesis
    using assms v
    by (auto simp: updatePost_def addressed_post_unfold owner_or_admin_def Let_def
          post_updated_def response_simps
          split: option.splits sum.splits prod.splits)
qed

lemma updatePost_invalid:
  assumes "req_user req = Some caller" "addressed_post L db req = Some (pid, p)"
  shows "(req_json req = Inr json \<and> postUpdateSchema L json = Inl is \<longrightarrow>
            updatePost L now db req = (validation_error is, db))
       \<and> (req_json req = Inl msg \<longrightarrow> updatePost L now db req = (internal_error_with msg, db))"
  using assms by (auto simp: updatePost_def addressed_post_unfold)

text \<open>
  C1, as amended. The caller is authenticated and the request addresses an existing
  post. \<open>deletePost\<close>: the author of the post or an admin gets 200 and the post row is
  gone; any other caller gets 403 and the store is as before. \<open>updatePost\<close> validates
  the body before it looks at the post: a body that fails the schema is answered 400 (a
  body that is not JSON 500) for every caller, with the store as before. With a body
  that passes the schema, any caller who is neither the author nor an admin gets 403 and
  the store is as before; the author or an admin is never answered 403: the answer is
  409 with the store as before when the new slug is the slug of a post already, and
  otherwise (slugs being unique in the store) the update statement runs on the post row.
\<close>

theorem post_ownership_rule:
  assumes "req_user req = Some caller" and "addressed_post L db req = Some (pid, p)"
  shows "(owner_or_admin caller p \<longrightarrow>
            resp_status (fst (deletePost L now db req)) = 200
            \<and> succeeded (fst (deletePost L now db req))
            \<and> \<not> list_ex (\<lambda>q. post_id q = pid) (posts (snd (deletePost L now db req))))
       \<and> (\<not> owner_or_admin caller p \<longrightarrow>
            resp_status (fst (deletePost L now db req)) = 403
            \<and> snd (deletePost L now db req) = db)
       \<and> (req_json req = Inr json \<and> postUpdateSchema L json = Inr d \<longrightarrow>
            (\<not> owner_or_admin caller p \<longrightarrow>
               resp_status (fst (updatePost L now db req)) = 403
               \<and> snd (updatePost L now db req) = db)
            \<and> (owner_or_admin caller p \<longrightarrow>
                 resp_status (fst (updatePost L now db req)) \<in> {200, 409, 500}
                 \<and> (slug_taken db d p \<longrightarrow>
                      resp_status (fst (updatePost L now db req)) = 409
                      \<and> snd (updatePost L now db req) = db)
                 \<and> (\<not> slug_taken db d p \<and> distinct (map post_slug (posts db)) \<longrightarrow>
                      find (\<lambda>q. post_id q = pid) (posts (snd (updatePost L now db req)))
                        = Some (set_post d now p)
                      \<and> resp_status (fst (updatePost L now db req)) \<in> {200, 500})))
       \<and> (req_json req = Inr json \<and> postUpdateSchema L json = Inl is \<longrightarrow>
            resp_status (fst (updatePost L now db req)) = 400
            \<and> snd (updatePost L now db req) = db)
       \<and> (req_json req = Inl msg \<longrightarrow>
            resp_status (fst (updatePost L now db req)) = 500
            \<and> snd (updatePost L now db req) = db)"
proof (intro conjI impI)
  assume o: "owner_or_admin caller p"
  from deletePost_allowed [OF assms o] obtain db' where
    d: "delete_post_row L (delete_post_categories db pid) pid = Inr db'"
    and e: "deletePost L now db req
              = (createAPIResponse True ''Post deleted successfully'' None None None, db')"
    by blast
  show "resp_status (fst (deletePost L now db req)) = 200"
    and "succeeded (fst (deletePost L now db req))"
    using e by (simp_all add: response_simps)
  show "\<not> list_ex (\<lambda>q. post_id q = pid) (posts (snd (deletePost L now db req)))"
    using deleted_post_unreferenced [OF d] e by simp
next
  assume o: "\<not> owner_or_admin caller p"
  show "resp_status (fst (deletePost L now db req)) = 403"
    and "snd (deletePost L now db req) = db"
    using deletePost_forbidden [OF assms o] by (simp_all add: response_simps)
next
  assume v: "req_json req = Inr json \<and> postUpdateSchema L json = Inr d"
    and o: "\<not> owner_or_admin caller p"
  from v have j: "req_json req = Inr json" and d: "postUpdateSchema L json = Inr d"
    by simp_all
  show "resp_status (fst (updatePost L now db req)) = 403"
    and "snd (updatePost L now db req) = db"
    using updatePost_forbidden [OF assms j d o] by (simp_all add: response_simps)
next
  assume v: "req_json req = Inr json \<and> postUpdateSchema L json = Inr d"
    and o: "owner_or_admin caller p"
  from v have j: "req_json req = Inr json" and d: "postUpdateSchema L json = Inr d"
    by simp_all
  show "resp_status (fst (updatePost L now db req)) \<in> {200, 409, 500}"
    using updatePost_passes [OF assms j d o] .
next
  assume v: "req_json req = Inr json \<and> postUpdateSchema L json = Inr d"
    and o: "owner_or_admin caller p" and t: "slug_taken db d p"
  from v have j: "req_json req = Inr json" and d: "postUpdateSchema L json = Inr d"
    by simp_all
  show "resp_status (fst (updatePost L now db req)) = 409"
    and "snd (updatePost L now db req) = db"
    using updatePost_conflict [OF assms j d o t] by (simp_all add: response_simps)
next
  assume v: "req_json req = Inr json \<and> postUpdateSchema L json = Inr d"
    and o: "owner_or_admin caller p"
    and t: "\<not> slug_taken db d p \<and> distinct (map post_slug (posts db))"
  from v have j: "req_json req = Inr json" and d: "postUpdateSchema L json = Inr d"
    by simp_all
  from t have t1: "\<not> slug_taken db d p" and t2: "distinct (map post_slug (posts db))"
    by simp_all
  show "find (\<lambda>q. post_id q = pid) (posts (snd (updatePost L now db req)))
          = Some (set_post d now p)"
    and "resp_status (fst (updatePost L now db req)) \<in> {200, 500}"
    using updatePost_allowed [OF assms j d o t1 t2, of now] by auto
next
  assume v: "req_json req = Inr json \<and> postUpdateSchema L json = Inl is"
  show "resp_status (fst (updatePost L now db req)) = 400"
    and "snd (updatePost L now db req) = db"
    using updatePost_invalid [OF assms, of json "is" now] v
    by (simp_all add: response_simps)
next
  assume v: "req_json req = Inl msg"
  show "resp_status (fst (updatePost L now db req)) = 500"
    and "snd (updatePost L now db req) = db"
    using updatePost_invalid [OF assms, of _ _ now msg] v
    by (simp_all add: response_simps)
qed


theorem post_ownership_rule_witness:
  "resp_status (fst (deletePost demo_lib 500 demo_db
       (demo_request (Some (demo_caller 3 ''bob'' Editor)) (Some ''1'') []
          (JObj [(''title'', JStr ''Hello again'')])))) = 403
   \<and> snd (deletePost demo_lib 500 demo_db
       (demo_request (Some (demo_caller 3 ''bob'' Editor)) (Some ''1'') []
          (JObj [(''title'', JStr ''Hello again'')]))) = demo_db
   \<and> resp_status (fst (updatePost demo_lib 500 demo_db
       (demo_request (Some (demo_caller 3 ''bob'' Editor)) (Some ''1'') []
          (JObj [(''title'', JStr ''Hello again'')])))) = 403
   \<and> snd (updatePost demo_lib 500 demo_db
       (demo_request (Some (demo_caller 3 ''bob'' Editor)) (Some ''1'') []
          (JObj [(''title'', JStr ''Hello again'')]))) = demo_db
   \<and> resp_status (fst (deletePost demo_lib 500 demo_db
       (demo_request (Some (demo_caller 2 ''alice'' Editor)) (Some ''1'') []
          (JObj [(''title'', JStr ''Hello again'')])))) = 200
   \<and> map_option post_title (find (\<lambda>q. post_id q = 1) (posts (snd (updatePost demo_lib 500 demo_db
       (demo_request (Some (demo_caller 2 ''alice'' Editor)) (Some ''1'') []
          (JObj [(''title'', JStr ''Hello again'')])))))) = Some ''Hello again''
   \<and> map_option post_title (find (\<lambda>q. post_id q = 1) (posts (snd (updatePost demo_lib 500 demo_db
       (demo_request (Some (demo_caller 1 ''root'' Admin)) (Some ''1'') []
          (JObj [(''title'', JStr ''Hello again'')])))))) = Some ''Hello again''"
proof -
  let ?json = "JObj [(''title'', JStr ''Hello again'')]"
  let ?d = "\<lparr>pu_title = Some ''Hello again'', pu_slug = None, pu_content = None,
             pu_contentType = None, pu_excerpt = None, pu_status = None,
             pu_featuredImage = None\<rparr>"
  let ?p = "demo_post 1 ''Hello'' ''hello'' 200"
  let ?bob = "demo_caller 3 ''bob'' Editor"
  let ?alice = "demo_caller 2 ''alice'' Editor"
  let ?root = "demo_caller 1 ''root'' Admin"
  have v: "postUpdateSchema demo_lib ?json = Inr ?d"
    by (simp add: postUpdateSchema_def zod_simps demo_lib_def)
  have a: "\<And>c. addressed_post demo_lib demo_db (demo_request c (Some ''1'') [] ?json)
             = Some (1, ?p)"
    by (simp add: addressed_post_def demo_simps)
  have u: "\<And>c. req_user (demo_request (Some c) (Some ''1'') [] ?json) = Some c"
    and j: "\<And>c. req_json (demo_request c (Some ''1'') [] ?json) = Inr ?json"
    by (simp_all add: demo_request_def)
  have o: "\<not> owner_or_admin ?bob ?p" "owner_or_admin ?alice ?p" "owner_or_admin ?root ?p"
    by (simp_all add: owner_or_admin_def demo_caller_def demo_post_def)
  have t: "\<not> slug_taken demo_db ?d ?p" "distinct (map post_slug (posts demo_db))"
    by (simp_all add: slug_taken_def demo_db_def demo_post_def)
  have k: "post_title (set_post ?d 500 ?p) = ''Hello again''"
    by (simp add: set_post_def)
  from post_ownership_rule [OF u a, of ?bob 500 ?json ?d] o j v t
  have b: "resp_status (fst (deletePost demo_lib 500 demo_db
              (demo_request (Some ?bob) (Some ''1'') [] ?json))) = 403
         \<and> snd (deletePost demo_lib 500 demo_db
              (demo_request (Some ?bob) (Some ''1'') [] ?json)) = demo_db
         \<and> resp_status (fst (updatePost demo_lib 500 demo_db
              (demo_request (Some ?bob) (Some ''1'') [] ?json))) = 403
         \<and> snd (updatePost demo_lib 500 demo_db
              (demo_request (Some ?bob) (Some ''1'') [] ?json)) = demo_db"
    by simp
  from post_ownership_rule [OF u a, of ?alice 500 ?json ?d] o j v t
  have al: "resp_status (fst (deletePost demo_lib 500 demo_db
              (demo_request (Some ?alice) (Some ''1'') [] ?json))) = 200
         \<and> find (\<lambda>q. post_id q = 1) (posts (snd (updatePost demo_lib 500 demo_db
              (demo_request (Some ?alice) (Some ''1'') [] ?json)))) = Some (set_post ?d 500 ?p)"
    by simp
  from post_ownership_rule [OF u a, of ?root 500 ?json ?d] o j v t
  have r: "find (\<lambda>q. post_id q = 1) (posts (snd (updatePost demo_lib 500 demo_db
              (demo_request (Some ?root) (Some ''1'') [] ?json)))) = Some (set_post ?d 500 ?p)"
    by simp
  from b al r k show ?thesis by simp
qed

text \<open>
  C1 as stated fails for a PATCH whose body does not pass the schema: an editor who is
  not the author sends an empty title for an existing post of another editor, and the
  answer is 400, not 403.
\<close>

theorem post_ownership_counterexample:
  "req_user (demo_request (Some (demo_caller 3 ''bob'' Editor)) (Some ''1'') []
              (JObj [(''title'', JStr [])])) = Some (demo_caller 3 ''bob'' Editor)
   \<and> addressed_post demo_lib demo_db
        (demo_request (Some (demo_caller 3 ''bob'' Editor)) (Some ''1'') []
           (JObj [(''title'', JStr [])])) = Some (1, demo_post 1 ''Hello'' ''hello'' 200)
   \<and> \<not> owner_or_admin (demo_caller 3 ''bob'' Editor) (demo_post 1 ''Hello'' ''hello'' 200)
   \<and> resp_status (fst (updatePost demo_lib 500 demo_db
        (demo_request (Some (demo_caller 3 ''bob'' Editor)) (Some ''1'') []
           (JObj [(''title'', JStr [])])))) = 400"
proof -
  have v: "postUpdateSchema demo_lib (JObj [(''title'', JStr [])]) = Inl [''title'']"
    by (simp add: postUpdateSchema_def zod_simps demo_lib_def)
  have a: "addressed_post demo_lib demo_db
        (demo_request (Some (demo_caller 3 ''bob'' Editor)) (Some ''1'') []
           (JObj [(''title'', JStr [])])) = Some (1, demo_post 1 ''Hello'' ''hello'' 200)"
    by (simp add: addressed_post_def demo_simps)
  have o: "\<not> owner_or_admin (demo_caller 3 ''bob'' Editor) (demo_post 1 ''Hello'' ''hello'' 200)"
    by (simp add: owner_or_admin_def demo_caller_def demo_post_def)
  have "resp_status (fst (updatePost demo_lib 500 demo_db
        (demo_request (Some (demo_caller 3 ''bob'' Editor)) (Some ''1'') []
           (JObj [(''title'', JStr [])])))) = 400"
    by (simp add: updatePost_def v truthy_def response_simps demo_request_def)
  with a o show ?thesis by (simp add: demo_request_def)
qed

section \<open>Pagination of the listing\<close>

lemma length_insert_by: "length (insert_by le x xs) = Suc (length xs)"
  by (induction xs) auto

lemma length_order_by: "length (order_by le xs) = length xs"
  by (induction xs) (auto simp: order_by_def length_insert_by)

lemma mset_insert_by: "mset (insert_by le x xs) = add_mset x (mset xs)"
  by (induction xs) auto

lemma mset_order_by: "mset (order_by le xs) = mset xs"
  by (induction xs) (auto simp: order_by_def mset_insert_by)

lemma set_insert_by: "set (insert_by le x xs) = insert x (set xs)"
  by (induction xs) auto

lemma sorted_insert_by:
  assumes tot: "\<And>a b. le a b \<or> le b a"
    and trans: "\<And>a b c. le a b \<Longrightarrow> le b c \<Longrightarrow> le a c"
    and "sorted_wrt le xs"
  shows "sorted_wrt le (insert_by le x xs)"
  using assms(3)
proof (induction xs)
  case Nil
  then show ?case by simp
next
  case (Cons y ys)
  show ?case
  proof (cases "le x y")
    case True
    with Cons.prems trans show ?thesis by auto
  next
    case False
    with tot have "le y x" by blast
    with False Cons show ?thesis by (auto simp: set_insert_by)
  qed
qed

lemma sorted_order_by:
  assumes tot: "\<And>a b. le a b \<or> le b a"
    and trans: "\<And>a b c. le a b \<Longrightarrow> le b c \<Longrightarrow> le a c"
  shows "sorted_wrt le (order_by le xs)"
proof (induction xs)
  case Nil
  then show ?case by (simp add: order_by_def)
next
  case (Cons x xs)
  have "order_by le (x # xs) = insert_by le x (order_by le xs)"
    by (simp add: order_by_def)
  with sorted_insert_by [of le "order_by le xs" x] tot trans Cons show ?case
    by metis
qed

lemma code_unit_inj: "code_unit a = code_unit b \<Longrightarrow> a = b"
  by (simp add: code_unit_def)

lemma str_le_total: "str_le a b \<or> str_le b a"
proof (induction a b rule: str_le.induct)
  case (1 t)
  then show ?case by simp
next
  case (2 a as)
  then show ?case by simp
next
  case (3 a as b bs)
  then show ?case
    using code_unit_inj [of a b] by (auto simp: not_less le_less)
qed

lemma str_le_trans: "str_le a b \<Longrightarrow> str_le b c \<Longrightarrow> str_le a c"
proof (induction a b arbitrary: c rule: str_le.induct)
  case (1 t)
  then show ?case by simp
next
  case (2 a as)
  then show ?case by simp
next
  case (3 a as b bs)
  then show ?case by (cases c) auto
qed

lemma orderBy_total: "orderBy q a b \<or> orderBy q b a"
  using str_le_total [of "post_title a" "post_title b"]
  by (auto simp: orderBy_def split: sort_by.splits sort_order.splits)

lemma orderBy_trans: "orderBy q a b \<Longrightarrow> orderBy q b c \<Longrightarrow> orderBy q a c"
  using str_le_trans [of "post_title a" "post_title b" "post_title c"]
    str_le_trans [of "post_title c" "post_title b" "post_title a"]
  by (auto simp: orderBy_def split: sort_by.splits sort_order.splits)

lemma ceil_div_ceiling: "ceil_div a b = \<lceil>real_of_int a / real_of_int b\<rceil>"
  by (simp add: ceil_div_def ceiling_divide_eq_div)


lemma postsQuerySchema_bounds:
  assumes "postsQuerySchema i = Inr q"
  shows "1 \<le> pq_page q \<and> 1 \<le> pq_limit q \<and> pq_limit q \<le> 100"
  using assms
  by (auto simp: postsQuerySchema_def Let_def z_coerce_default_def z_coerce_int_def
        split: if_splits option.splits jsnum.splits)

text \<open>
  C4, as amended. A listing request whose validated query has limit 2, over at least
  three matching rows: the body carries the page of rows at offset (page - 1) * 2 of the
  matching rows in the chosen order (a sorted rearrangement of the matching rows),
  which has min(2, matching rows - offset) elements, exactly 2 on page 1;
  \<open>pagination.total\<close> is the number of matching rows and \<open>pagination.totalPages\<close> is
  the ceiling of total / limit.
\<close>

theorem getPosts_pagination:
  assumes "postsQuerySchema (posts_query_of L (req_query req)) = Inr q"
    and "pq_limit q = 2"
    and "3 \<le> length (select_where (whereClause db q) (posts db))"
  shows "\<exists>rows total totalPages.
           getPosts L db req
             = createPaginatedResponse (map (post_listing db) rows)
                 \<lparr>pg_page = pq_page q, pg_limit = 2, pg_total = total,
                  pg_totalPages = totalPages\<rparr>
           \<and> total = int (length (select_where (whereClause db q) (posts db)))
           \<and> totalPages = \<lceil>real_of_int total / real_of_int (pq_limit q)\<rceil>
           \<and> rows = take 2 (drop (nat ((pq_page q - 1) * 2))
                       (order_by (orderBy q) (select_where (whereClause db q) (posts db))))
           \<and> sorted_wrt (orderBy q)
                 (order_by (orderBy q) (select_where (whereClause db q) (posts db)))
           \<and> mset (order_by (orderBy q) (select_where (whereClause db q) (posts db)))
               = mset (select_where (whereClause db q) (posts db))
           \<and> length (map (post_listing db) rows)
               = min 2 (length (select_where (whereClause db q) (posts db))
                        - nat ((pq_page q - 1) * 2))
           \<and> (pq_page q = 1 \<longrightarrow> length (map (post_listing db) rows) = 2)"
proof -
  let ?m = "select_where (whereClause db q) (posts db)"
  let ?rows = "take 2 (drop (nat ((pq_page q - 1) * 2)) (order_by (orderBy q) ?m))"
  have g: "getPosts L db req
             = createPaginatedResponse (map (post_listing db) ?rows)
                 \<lparr>pg_page = pq_page q, pg_limit = 2, pg_total = int (length ?m),
                  pg_totalPages = ceil_div (int (length ?m)) 2\<rparr>"
    using assms(1,2) by (simp add: getPosts_def postsList_def totalCount_def Let_def)
  have c: "ceil_div (int (length ?m)) 2
           = \<lceil>real_of_int (int (length ?m)) / real_of_int (pq_limit q)\<rceil>"
    using ceil_div_ceiling [of "int (length ?m)" 2] assms(2) by simp
  have s: "sorted_wrt (orderBy q) (order_by (orderBy q) ?m)"
    using sorted_order_by [of "orderBy q" ?m] orderBy_total orderBy_trans by blast
  have l: "length (map (post_listing db) ?rows)
           = min 2 (length ?m - nat ((pq_page q - 1) * 2))"
    by (simp add: length_order_by)
  have l1: "pq_page q = 1 \<longrightarrow> length (map (post_listing db) ?rows) = 2"
    using assms(3) by (simp add: length_order_by)
  from g c s l l1 mset_order_by [of "orderBy q" ?m] show ?thesis by blast
qed


lemmas listing_simps = conditions_def whereClause_def select_where_def order_by_def
  orderBy_def postsList_def totalCount_def

theorem getPosts_pagination_witness:
  "\<exists>rows. getPosts demo_lib demo_db
             (demo_request None None [(''page'', ''1''), (''limit'', ''2'')] JNull)
           = createPaginatedResponse rows
               \<lparr>pg_page = 1, pg_limit = 2, pg_total = 3, pg_totalPages = 2\<rparr>
         \<and> length rows = 2"
proof -
  let ?req = "demo_request None None [(''page'', ''1''), (''limit'', ''2'')] JNull"
  let ?q = "\<lparr>pq_page = 1, pq_limit = 2, pq_status = None, pq_category = None,
             pq_author = None, pq_search = None, pq_sortBy = Created_at,
             pq_sortOrder = Desc\<rparr>"
  have q: "postsQuerySchema (posts_query_of demo_lib (req_query ?req)) = Inr ?q"
    by (simp add: postsQuerySchema_def zod_simps demo_simps)
  have m: "select_where (whereClause demo_db ?q) (posts demo_db) = posts demo_db"
    by (simp add: listing_simps truthy_def)
  have n: "length (posts demo_db) = 3"
    by (simp add: demo_db_def)
  from getPosts_pagination [OF q, of demo_db] m n
  obtain rows total totalPages where
    "getPosts demo_lib demo_db ?req
       = createPaginatedResponse (map (post_listing demo_db) rows)
           \<lparr>pg_page = 1, pg_limit = 2, pg_total = total, pg_totalPages = totalPages\<rparr>"
    "total = 3" "totalPages = \<lceil>real_of_int total / 2\<rceil>"
    "length (map (post_listing demo_db) rows) = 2"
    by auto
  then show ?thesis by auto
qed

text \<open>
  C4 as stated fails beyond the first page: with limit 2 over three matching rows, page
  2 has one row.
\<close>

theorem getPosts_pagination_counterexample:
  "postsQuerySchema (posts_query_of demo_lib
       (req_query (demo_request None None [(''page'', ''2''), (''limit'', ''2'')] JNull)))
     = Inr \<lparr>pq_page = 2, pq_limit = 2, pq_status = None, pq_category = None,
             pq_author = None, pq_search = None, pq_sortBy = Created_at,
             pq_sortOrder = Desc\<rparr>
   \<and> length (select_where
         (whereClause demo_db
            \<lparr>pq_page = 2, pq_limit = 2, pq_status = None, pq_category = None,
             pq_author = None, pq_search = None, pq_sortBy = Created_at,
             pq_sortOrder = Desc\<rparr>) (posts demo_db)) = 3
   \<and> js_prop (resp_body (getPosts demo_lib demo_db
         (demo_request None None [(''page'', ''2''), (''limit'', ''2'')] JNull))) ''data''
       = Some (JArr [post_listing demo_db (demo_post 1 ''Hello'' ''hello'' 200)])"
proof -
  let ?req = "demo_request None None [(''page'', ''2''), (''limit'', ''2'')] JNull"
  let ?q = "\<lparr>pq_page = 2, pq_limit = 2, pq_status = None, pq_category = None,
             pq_author = None, pq_search = None, pq_sortBy = Created_at,
             pq_sortOrder = Desc\<rparr>"
  have q: "postsQuerySchema (posts_query_of demo_lib (req_query ?req)) = Inr ?q"
    by (simp add: postsQuerySchema_def zod_simps demo_simps)
  have m: "select_where (whereClause demo_db ?q) (posts demo_db) = posts demo_db"
    by (simp add: listing_simps truthy_def)
  have n: "length (posts demo_db) = 3"
    by (simp add: demo_db_def)
  have o: "order_by (orderBy ?q) (posts demo_db)
           = [demo_post 3 ''Again'' ''again'' 400, demo_post 2 ''World'' ''world'' 300,
              demo_post 1 ''Hello'' ''hello'' 200]"
    by (simp add: order_by_def orderBy_def demo_db_def demo_post_def)
  have "postsList demo_db ?q = [demo_post 1 ''Hello'' ''hello'' 200]"
    by (simp add: postsList_def m o)
  then have "js_prop (resp_body (getPosts demo_lib demo_db ?req)) ''data''
       = Some (JArr [post_listing demo_db (demo_post 1 ''Hello'' ''hello'' 200)])"
    by (simp add: getPosts_def q createPaginatedResponse_def)
  with q m n show ?thesis by simp
qed

section \<open>The search filter of the listing\<close>
























end
